theory Spec2Isabelle
  imports Complex_Main
begin

section \<open>Data model\<close>

text \<open>
  The numbers the handler computes with: a Python float is a real number, one of the
  two infinities, or NaN. An integer is the real number it denotes.
\<close>

datatype pyfloat = Fin real | PosInf | NegInf | NaN

text \<open>
  Python's \<open><\<close> and \<open><=\<close> on these: every comparison with NaN is false.
\<close>

fun fless :: "pyfloat \<Rightarrow> pyfloat \<Rightarrow> bool" where
  "fless NaN y = False"
| "fless x NaN = False"
| "fless (Fin x) (Fin y) = (x < y)"
| "fless x NegInf = False"
| "fless NegInf y = True"
| "fless PosInf y = False"
| "fless (Fin x) PosInf = True"

fun fless_eq :: "pyfloat \<Rightarrow> pyfloat \<Rightarrow> bool" where
  "fless_eq NaN y = False"
| "fless_eq x NaN = False"
| "fless_eq (Fin x) (Fin y) = (x \<le> y)"
| "fless_eq NegInf y = True"
| "fless_eq x PosInf = True"
| "fless_eq x NegInf = False"
| "fless_eq PosInf y = False"

text \<open>
  Values that \<open>json.loads\<close> can put into a telemetry payload. A JSON number is
  \<open>JNum\<close> with its value; the decoder also accepts the tokens \<open>NaN\<close>, \<open>Infinity\<close>
  and \<open>-Infinity\<close>, and integer literals of any size: \<open>JHuge\<close> is an integer too
  large to convert to a float. Arrays and objects are one constructor, since the
  handler never looks inside them.
\<close>

datatype jval =
    JNum real | JNaN | JInfinity | JNegInfinity | JHuge
  | JBool bool | JStr string | JNull | JCompound

text \<open>
  An MQTT message as \<open>on_message\<close> sees it: bytes that do not decode to JSON, a JSON
  value that is not an object (it has no \<open>get\<close>), or an object.
\<close>

datatype message = Undecodable | NonObject | Payload "string \<rightharpoonup> jval"

text \<open>
  What the control code sends to its collaborators, in the order it is sent: the
  actuator command published on the control topic, the audit record
  (event type, description, source, severity), the alert (type, severity, and the mode
  and moisture its message is formatted from), and the dashboard broadcast. Console
  prints are diagnostics and are not traced, except the one of the exception handler
  of \<open>on_message\<close>, which is the only record of a dropped sample.
\<close>

datatype effect =
    Publish string
  | Audit string string string string
  | Alert string string "string option" "pyfloat option"
  | Broadcast
  | LogError

text \<open>
  The dictionary \<open>Database._state\<close> as a record, with the three alert timestamps kept
  as a map from their keys (\<open>should_send_alert\<close> reads them by key), followed by the
  module's global \<open>auto_off_timer\<close>, the \<open>threading.Timer\<close> threads that are alive
  with their deadlines, the number of timers created so far (the next handle), and
  the trace of effects. Times are seconds on the clock of \<open>datetime.now\<close>.
  The keys \<open>last_flow_rate\<close> and \<open>last_flow_rate_check\<close> are never read by the
  control code and are left out.
\<close>

record state =
  pump_is_on :: bool
  last_known_flow_lpm :: jval
  last_known_moisture :: jval
  automated_mode_enabled :: bool
  critical_low_threshold :: real
  critical_high_threshold :: real
  total_flow :: jval
  current_cycle_volume_l :: jval
  manual_override_active :: bool
  manual_override_state :: "string option"
  allow_manual_override_at_any_moisture :: bool
  current_schedule_name :: "string option"
  schedule_end_time :: "real option"
  alert_times :: "string \<rightharpoonup> real"
  auto_off_timer :: "nat option"
  timers :: "nat \<rightharpoonup> real"
  timers_created :: nat
  trace :: "effect list"

definition initial_state :: state where
  "initial_state =
     \<lparr> pump_is_on = False,
       last_known_flow_lpm = JNum 0,
       last_known_moisture = JNum 50,
       automated_mode_enabled = True,
       critical_low_threshold = 40,
       critical_high_threshold = 80,
       total_flow = JNum 0,
       current_cycle_volume_l = JNum 0,
       manual_override_active = False,
       manual_override_state = None,
       allow_manual_override_at_any_moisture = True,
       current_schedule_name = None,
       schedule_end_time = None,
       alert_times = Map.empty,
       auto_off_timer = None,
       timers = Map.empty,
       timers_created = 0,
       trace = [] \<rparr>"

definition emit :: "effect \<Rightarrow> state \<Rightarrow> state" where
  "emit e s = s\<lparr>trace := trace s @ [e]\<rparr>"

fun publishes :: "effect list \<Rightarrow> string list" where
  "publishes [] = []"
| "publishes (Publish c # es) = c # publishes es"
| "publishes (_ # es) = publishes es"

fun audits :: "effect list \<Rightarrow> (string \<times> string) list" where
  "audits [] = []"
| "audits (Audit ev d src sev # es) = (d, src) # audits es"
| "audits (_ # es) = audits es"

section \<open>Pump commands and the auto-off timer\<close>

text \<open>
  \<open>if auto_off_timer and auto_off_timer.is_alive(): auto_off_timer.cancel()\<close>,
  as \<open>turn_pump_on\<close> has it: the global keeps its value.
\<close>

definition cancel_if_alive :: "state \<Rightarrow> state" where
  "cancel_if_alive s =
     (case auto_off_timer s of
        None \<Rightarrow> s
      | Some h \<Rightarrow> (if timers s h \<noteq> None then s\<lparr>timers := (timers s)(h := None)\<rparr> else s))"

text \<open>
  \<open>auto_off_timer = threading.Timer(...); auto_off_timer.start()\<close>: a new thread,
  distinct from every earlier one, that fires at the deadline.
\<close>

definition start_timer :: "real \<Rightarrow> state \<Rightarrow> state" where
  "start_timer deadline s =
     s\<lparr>auto_off_timer := Some (timers_created s),
       timers := (timers s)(timers_created s \<mapsto> deadline),
       timers_created := Suc (timers_created s)\<rparr>"

text \<open>
  The same test in \<open>turn_pump_off\<close>, where the global is also set to None
  inside the \<open>if\<close>.
\<close>

definition cancel_and_forget :: "state \<Rightarrow> state" where
  "cancel_and_forget s =
     (case auto_off_timer s of
        None \<Rightarrow> s
      | Some h \<Rightarrow>
          (if timers s h \<noteq> None
           then s\<lparr>timers := (timers s)(h := None), auto_off_timer := None\<rparr>
           else s))"

text \<open>
  \<open>turn_pump_on(source)\<close>; \<open>auto_off_minutes\<close> is \<open>config.PUMP_AUTO_OFF_MINUTES\<close>
  (read from the environment) and \<open>now\<close> the time of the call.
\<close>

definition turn_pump_on :: "int \<Rightarrow> real \<Rightarrow> string \<Rightarrow> state \<Rightarrow> state" where
  "turn_pump_on auto_off_minutes now source s =
     (if pump_is_on s then s
      else
        let s1 = emit (Audit ''PUMP_CONTROL'' (''Pump turned ON - '' @ source) source ''INFO'') s;
            s2 = emit (Publish ''ON'') s1;
            s3 = s2\<lparr>pump_is_on := True\<rparr>;
            s4 = start_timer (now + real_of_int (auto_off_minutes * 60)) (cancel_if_alive s3)
        in emit Broadcast s4)"

definition turn_pump_off :: "string \<Rightarrow> state \<Rightarrow> state" where
  "turn_pump_off source s =
     (if \<not> pump_is_on s then s
      else
        let s1 = emit (Audit ''PUMP_CONTROL'' (''Pump turned OFF - '' @ source) source ''INFO'') s;
            s2 = emit (Publish ''OFF'') s1;
            s3 = s2\<lparr>pump_is_on := False, last_known_flow_lpm := JNum 0\<rparr>;
            s4 = cancel_and_forget s3
        in emit Broadcast s4)"

section \<open>Telemetry handling\<close>

text \<open>Python's truth value of an optional string: None and the empty string are false.\<close>

definition truthy :: "string option \<Rightarrow> bool" where
  "truthy x = (case x of None \<Rightarrow> False | Some v \<Rightarrow> v \<noteq> [])"

definition get_current_mode :: "state \<Rightarrow> string" where
  "get_current_mode s =
     (if manual_override_active s then ''MANUAL''
      else if truthy (current_schedule_name s) then ''SCHEDULED''
      else if automated_mode_enabled s then ''AUTOMATED''
      else ''IDLE'')"

definition ALERT_COOLDOWN_CRITICAL :: int where
  "ALERT_COOLDOWN_CRITICAL = 3600"

definition ALERT_COOLDOWN_INFO :: int where
  "ALERT_COOLDOWN_INFO = 600"

text \<open>
  \<open>should_send_alert(alert_key, cooldown_seconds)\<close>, with the clock reading \<open>now\<close>
  passed in; \<open>(now - last_alert_time).total_seconds()\<close> is the difference of the two
  times.
\<close>

definition should_send_alert :: "real \<Rightarrow> string \<Rightarrow> int \<Rightarrow> state \<Rightarrow> bool" where
  "should_send_alert now alert_key cooldown_seconds s =
     (case alert_times s alert_key of
        None \<Rightarrow> True
      | Some last_alert_time \<Rightarrow> now - last_alert_time \<ge> real_of_int cooldown_seconds)"

text \<open>\<open>db.set(key, value)\<close> on one of the alert timestamps.\<close>

definition set_alert_time :: "string \<Rightarrow> real option \<Rightarrow> state \<Rightarrow> state" where
  "set_alert_time k v s = s\<lparr>alert_times := (alert_times s)(k := v)\<rparr>"

datatype zone = CRITICAL_LOW | NORMAL | CRITICAL_HIGH

text \<open>
  The \<open>if\<close>/\<open>elif\<close>/\<open>elif\<close> chain of the moisture monitoring block. The chain has
  no final \<open>else\<close>: a moisture that passes none of the three tests (NaN) has no zone.
\<close>

definition zone_of :: "real \<Rightarrow> real \<Rightarrow> pyfloat \<Rightarrow> zone option" where
  "zone_of critical_low critical_high moisture =
     (if fless moisture (Fin critical_low) then Some CRITICAL_LOW
      else if fless_eq (Fin critical_low) moisture \<and> fless_eq moisture (Fin critical_high)
        then Some NORMAL
      else if fless (Fin critical_high) moisture then Some CRITICAL_HIGH
      else None)"

text \<open>The body of one zone: the alert, if its cooldown allows, and its timestamp.\<close>

definition zone_alert :: "real \<Rightarrow> string \<Rightarrow> int \<Rightarrow> effect \<Rightarrow> state \<Rightarrow> state" where
  "zone_alert now alert_key cooldown alert s =
     (if should_send_alert now alert_key cooldown s
      then set_alert_time alert_key (Some now) (emit alert s)
      else s)"

definition moisture_monitoring ::
  "real \<Rightarrow> pyfloat \<Rightarrow> real \<Rightarrow> real \<Rightarrow> string \<Rightarrow> state \<Rightarrow> state" where
  "moisture_monitoring now moisture critical_low critical_high current_mode s =
     (case zone_of critical_low critical_high moisture of
        Some CRITICAL_LOW \<Rightarrow>
          set_alert_time ''last_critical_high_alert'' None
            (set_alert_time ''last_normal_alert'' None
              (zone_alert now ''last_critical_low_alert'' ALERT_COOLDOWN_CRITICAL
                 (Alert ''CRITICAL_LOW_MOISTURE'' ''CRITICAL'' (Some current_mode) (Some moisture)) s))
      | Some NORMAL \<Rightarrow>
          set_alert_time ''last_critical_high_alert'' None
            (set_alert_time ''last_critical_low_alert'' None
              (zone_alert now ''last_normal_alert'' ALERT_COOLDOWN_INFO
                 (Alert ''NORMAL_MOISTURE'' ''INFO'' (Some current_mode) (Some moisture)) s))
      | Some CRITICAL_HIGH \<Rightarrow>
          set_alert_time ''last_critical_low_alert'' None
            (set_alert_time ''last_normal_alert'' None
              (zone_alert now ''last_critical_high_alert'' ALERT_COOLDOWN_CRITICAL
                 (Alert ''CRITICAL_HIGH_MOISTURE'' ''CRITICAL'' (Some current_mode) (Some moisture)) s))
      | None \<Rightarrow> s)"

text \<open>
  Manual override enforcement and, in its \<open>elif\<close>, automated control. The override
  flags and the reported pump status are the locals read before the monitoring block;
  \<open>automated_mode_enabled\<close> and \<open>pump_is_on\<close> are read from the state here.
\<close>

definition pump_control ::
  "int \<Rightarrow> real \<Rightarrow> pyfloat \<Rightarrow> real \<Rightarrow> real \<Rightarrow> bool \<Rightarrow> bool \<Rightarrow> string option \<Rightarrow> state
     \<Rightarrow> state" where
  "pump_control auto_off_minutes now moisture critical_low critical_high new_pump_status
       override_active override_state s =
     (if override_active \<and> truthy override_state then
        (let desired_state_on = (override_state = Some ''ON'') in
           if desired_state_on \<and> \<not> new_pump_status
             then turn_pump_on auto_off_minutes now ''Manual Override - Enforcement'' s
           else if \<not> desired_state_on \<and> new_pump_status
             then turn_pump_off ''Manual Override - Enforcement'' s
           else s)
      else if automated_mode_enabled s then
        (let pump_on = pump_is_on s in
           if fless moisture (Fin critical_low) \<and> \<not> pump_on
             then turn_pump_on auto_off_minutes now ''Automated - Critical Low Moisture'' s
           else if fless_eq (Fin critical_low) moisture \<and> fless_eq moisture (Fin critical_high)
                   \<and> pump_on
             then turn_pump_off ''Automated - Normal Moisture Reached'' s
           else if fless (Fin critical_high) moisture \<and> pump_on
             then turn_pump_off ''Automated - Critical High Moisture'' s
           else s)
      else s)"

text \<open>The pump state change alerts, comparing the two locals of the handler.\<close>

definition pump_state_change_alerts ::
  "bool \<Rightarrow> bool \<Rightarrow> string \<Rightarrow> pyfloat \<Rightarrow> state \<Rightarrow> state" where
  "pump_state_change_alerts old_pump_status new_pump_status current_mode moisture s =
     (if old_pump_status \<noteq> new_pump_status then
        (if new_pump_status
         then emit (Alert ''PUMP_ON'' ''INFO'' (Some current_mode) (Some moisture)) s
         else
           (let s1 = emit (Alert ''PUMP_OFF'' ''INFO'' (Some current_mode) (Some moisture)) s
            in if truthy (current_schedule_name s1)
               then s1\<lparr>current_schedule_name := None, schedule_end_time := None\<rparr>
               else s1))
      else s)"

text \<open>\<open>payload.get(key, default)\<close>.\<close>

definition payload_get :: "(string \<rightharpoonup> jval) \<Rightarrow> string \<Rightarrow> jval \<Rightarrow> jval" where
  "payload_get payload k d = (case payload k of None \<Rightarrow> d | Some v \<Rightarrow> v)"

text \<open>
  The number that the format \<open>{moisture:.1f}\<close> and the comparisons see: a number is
  itself (NaN and the infinities format as text), a Boolean is 0 or 1, and anything
  else makes the format raise.
\<close>

fun num_of :: "jval \<Rightarrow> pyfloat option" where
  "num_of (JNum x) = Some (Fin x)"
| "num_of JNaN = Some NaN"
| "num_of JInfinity = Some PosInf"
| "num_of JNegInfinity = Some NegInf"
| "num_of (JBool b) = Some (Fin (if b then 1 else 0))"
| "num_of JHuge = None"
| "num_of (JStr v) = None"
| "num_of JNull = None"
| "num_of JCompound = None"

datatype exn =
    JSONDecodeError | AttributeError | TypeError
  | ValueError | IndexError | OverflowError | JobLookupError

text \<open>The exception of the format when it raises.\<close>

fun format_error :: "jval \<Rightarrow> exn" where
  "format_error JHuge = OverflowError"
| "format_error (JStr v) = ValueError"
| "format_error v = TypeError"

text \<open>
  The \<open>db.update\<close> that merges the sample into the state, before anything is checked.
\<close>

definition merge_sample :: "(string \<rightharpoonup> jval) \<Rightarrow> state \<Rightarrow> state" where
  "merge_sample payload s =
     s\<lparr>last_known_flow_lpm := payload_get payload ''flow_rate'' (JNum 0),
       pump_is_on := (payload ''pump_status'' = Some (JStr ''ON'')),
       last_known_moisture := payload_get payload ''moisture'' (last_known_moisture s),
       total_flow := payload_get payload ''total_flow'' (total_flow s),
       current_cycle_volume_l := payload_get payload ''cycle_usage'' (JNum 0)\<rparr>"

text \<open>
  The \<open>try\<close> block of \<open>on_message\<close>: the exception raised, if any, and the state at
  that point (the state is global, so what was written before a raise stays written).
  The first use of the moisture as a number is the \<open>print\<close> that formats it, right
  after the merge. The clock is read once (\<open>now\<close>).
\<close>

definition on_message_try :: "int \<Rightarrow> real \<Rightarrow> message \<Rightarrow> state \<Rightarrow> exn option \<times> state" where
  "on_message_try auto_off_minutes now msg s =
     (case msg of
        Undecodable \<Rightarrow> (Some JSONDecodeError, s)
      | NonObject \<Rightarrow> (Some AttributeError, s)
      | Payload payload \<Rightarrow>
          (let old_pump_status = pump_is_on s;
               new_pump_status = (payload ''pump_status'' = Some (JStr ''ON''));
               s1 = merge_sample payload s
           in case num_of (last_known_moisture s1) of
                None \<Rightarrow> (Some (format_error (last_known_moisture s1)), s1)
              | Some moisture \<Rightarrow>
                  (let critical_low = critical_low_threshold s1;
                       critical_high = critical_high_threshold s1;
                       override_active = manual_override_active s1;
                       override_state = manual_override_state s1;
                       allow_override_at_any_moisture = allow_manual_override_at_any_moisture s1;
                       current_mode = get_current_mode s1;
                       s2 = moisture_monitoring now moisture critical_low critical_high current_mode s1
                   in if fless (Fin critical_high) moisture \<and> \<not> allow_override_at_any_moisture
                         \<and> new_pump_status
                      then
                        (None, emit Broadcast
                           ((turn_pump_off ''Emergency - Soil Too Wet'' s2)
                              \<lparr>manual_override_active := False, manual_override_state := None\<rparr>))
                      else
                        (let s3 = pump_control auto_off_minutes now moisture critical_low
                                    critical_high new_pump_status override_active override_state s2;
                             s4 = pump_state_change_alerts old_pump_status new_pump_status
                                    current_mode moisture s3
                         in (None, emit Broadcast s4)))))"

text \<open>\<open>on_message\<close>: the \<open>except\<close> clause prints the exception and returns.\<close>

definition on_message :: "int \<Rightarrow> real \<Rightarrow> message \<Rightarrow> state \<Rightarrow> state" where
  "on_message auto_off_minutes now msg s =
     (case on_message_try auto_off_minutes now msg s of
        (None, s') \<Rightarrow> s'
      | (Some e, s') \<Rightarrow> emit LogError s')"

text \<open>The transition alerts in a trace: type, mode and moisture.\<close>

fun pump_alerts :: "effect list \<Rightarrow> (string \<times> string option \<times> pyfloat option) list" where
  "pump_alerts [] = []"
| "pump_alerts (Alert ty sev mode mo # es) =
     (if ty = ''PUMP_ON'' \<or> ty = ''PUMP_OFF'' then (ty, mode, mo) # pump_alerts es
      else pump_alerts es)"
| "pump_alerts (_ # es) = pump_alerts es"

text \<open>
  A telemetry payload that carries a moisture and a reported pump status and nothing
  else, for stating concrete runs.
\<close>

definition sample :: "real \<Rightarrow> string \<Rightarrow> string \<rightharpoonup> jval" where
  "sample m st = [''moisture'' \<mapsto> JNum m, ''pump_status'' \<mapsto> JStr st]"

section \<open>Manual endpoints, scheduled callbacks and timer expiry\<close>

text \<open>
  \<open>POST /pump/on\<close>. The handler formats the last known moisture into its alert
  message; when that is not a number the format raises after the \<open>db.update\<close>, and
  the exception leaves the handler. The awaited calls are taken as one step here.
\<close>

definition post_pump_on :: "int \<Rightarrow> real \<Rightarrow> state \<Rightarrow> exn option \<times> state" where
  "post_pump_on auto_off_minutes now s =
     (let s1 = s\<lparr>manual_override_active := True,
                 manual_override_state := Some ''ON'',
                 current_schedule_name := None,
                 schedule_end_time := None\<rparr>
      in case num_of (last_known_moisture s1) of
           None \<Rightarrow> (Some (format_error (last_known_moisture s1)), s1)
         | Some moisture \<Rightarrow>
             (let s2 = emit (Alert ''MANUAL_OVERRIDE_ON'' ''INFO'' None (Some moisture)) s1;
                  s3 = turn_pump_on auto_off_minutes now ''Manual Control'' s2
              in (None, emit Broadcast s3)))"

text \<open>\<open>POST /pump/off\<close>.\<close>

definition post_pump_off :: "state \<Rightarrow> exn option \<times> state" where
  "post_pump_off s =
     (let s1 = s\<lparr>manual_override_active := True,
                 manual_override_state := Some ''OFF'',
                 current_schedule_name := None,
                 schedule_end_time := None\<rparr>;
          s2 = emit (Alert ''MANUAL_OVERRIDE_OFF'' ''INFO'' None None) s1;
          s3 = turn_pump_off ''Manual Control'' s2
      in (None, emit Broadcast s3))"








section \<open>Schedule compilation\<close>

text \<open>
  Python's \<open>str.split(':')\<close>, \<open>int(str)\<close> on ASCII text (surrounding whitespace, an
  optional sign, digits with single underscores between them; digits outside ASCII
  and the interpreter's limit on the number of digits are not modelled), \<open>str(int)\<close>
  and \<open>str.lower()\<close> on ASCII letters.
\<close>

fun split_on :: "char \<Rightarrow> string \<Rightarrow> string list" where
  "split_on c [] = [[]]"
| "split_on c (x # xs) =
     (if x = c then [] # split_on c xs
      else (case split_on c xs of
              [] \<Rightarrow> [[x]]
            | w # ws \<Rightarrow> (x # w) # ws))"

definition is_digit :: "char \<Rightarrow> bool" where
  "is_digit c \<longleftrightarrow> 48 \<le> (of_char c :: nat) \<and> (of_char c :: nat) \<le> 57"

definition digit_val :: "char \<Rightarrow> int" where
  "digit_val c = int (of_char c) - 48"

definition is_space :: "char \<Rightarrow> bool" where
  "is_space c \<longleftrightarrow> (9 \<le> (of_char c :: nat) \<and> (of_char c :: nat) \<le> 13) \<or> (of_char c :: nat) = 32"

fun parse_digits :: "int \<Rightarrow> string \<Rightarrow> int option" where
  "parse_digits acc [] = Some acc"
| "parse_digits acc [c] = (if is_digit c then Some (acc * 10 + digit_val c) else None)"
| "parse_digits acc (c # d # cs) =
     (if is_digit c then parse_digits (acc * 10 + digit_val c) (d # cs)
      else if c = CHR ''_'' \<and> is_digit d then parse_digits (acc * 10 + digit_val d) cs
      else None)"

definition parse_unsigned :: "string \<Rightarrow> int option" where
  "parse_unsigned s =
     (case s of
        [] \<Rightarrow> None
      | c # cs \<Rightarrow> (if is_digit c then parse_digits (digit_val c) cs else None))"

definition py_int :: "string \<Rightarrow> int option" where
  "py_int s =
     (case rev (dropWhile is_space (rev (dropWhile is_space s))) of
        [] \<Rightarrow> None
      | c # cs \<Rightarrow>
          (if c = CHR ''-'' then map_option uminus (parse_unsigned cs)
           else if c = CHR ''+'' then parse_unsigned cs
           else parse_unsigned (c # cs)))"

fun str_nat :: "nat \<Rightarrow> string" where
  "str_nat n =
     (if n < 10 then [char_of (48 + n)]
      else str_nat (n div 10) @ [char_of (48 + n mod 10)])"

definition str_int :: "int \<Rightarrow> string" where
  "str_int i = (if i < 0 then CHR ''-'' # str_nat (nat (- i)) else str_nat (nat i))"

definition lower :: "string \<Rightarrow> string" where
  "lower s = map (\<lambda>c. if 65 \<le> (of_char c :: nat) \<and> (of_char c :: nat) \<le> 90
                       then char_of ((of_char c :: nat) + 32) else c) s"

fun all_some :: "'a option list \<Rightarrow> 'a list option" where
  "all_some [] = Some []"
| "all_some (None # xs) = None"
| "all_some (Some x # xs) = map_option ((#) x) (all_some xs)"

text \<open>
  A row of the schedules table as the store returns it; \<open>name\<close> and \<open>repeat_days\<close>
  may be null. (Rows that lack \<open>id\<close>, \<open>duration_min\<close> or \<open>start_time_of_day\<close>, or
  hold another type there, are not modelled.)
\<close>

record schedule_data =
  sched_id :: int
  sched_name :: "string option"
  duration_min :: int
  start_time_of_day :: string
  is_active :: int
  repeat_days :: "string option"

text \<open>The callback of a job, closed over the job name (and the duration).\<close>

datatype job_func = StartScheduledPump string int | StopScheduledPump string

text \<open>A job of the scheduler: callback, the fields of its cron trigger, and name.\<close>

record job =
  func :: job_func
  day_of_week :: string
  hour :: int
  minute :: int
  job_name :: string

text \<open>\<open>scheduler.remove_job(job_id)\<close>, which raises when there is no such job.\<close>

definition remove_job :: "string \<Rightarrow> (string \<rightharpoonup> job) \<Rightarrow> exn + (string \<rightharpoonup> job)" where
  "remove_job job_id jobs =
     (if jobs job_id = None then Inl JobLookupError else Inr (jobs(job_id := None)))"

text \<open>
  \<open>_remove_job_from_scheduler(schedule_id)\<close>: the loop over the two suffixes, each
  removal in its own \<open>try\<close> that ignores the exception.
\<close>

fun remove_suffixes :: "string list \<Rightarrow> string \<Rightarrow> (string \<rightharpoonup> job) \<Rightarrow> (string \<rightharpoonup> job)" where
  "remove_suffixes [] job_id_base jobs = jobs"
| "remove_suffixes (job_suffix # rest) job_id_base jobs =
     remove_suffixes rest job_id_base
       (case remove_job (job_suffix @ ''_'' @ job_id_base) jobs of
          Inl e \<Rightarrow> jobs
        | Inr jobs' \<Rightarrow> jobs')"

definition remove_job_from_scheduler :: "string \<Rightarrow> (string \<rightharpoonup> job) \<Rightarrow> (string \<rightharpoonup> job)" where
  "remove_job_from_scheduler schedule_id jobs =
     remove_suffixes [''on'', ''off''] (''db_'' @ schedule_id) jobs"

text \<open>\<open>list(map(int, start_time_of_day.split(':')))\<close>; None when an \<open>int\<close> raises.\<close>

definition time_parts_of :: "string \<Rightarrow> int list option" where
  "time_parts_of s = all_some (map py_int (split_on CHR '':'' s))"

text \<open>
  \<open>datetime.now(...).replace(hour=time_parts[0], minute=time_parts[1],
  second=time_parts[2], microsecond=0)\<close>: the three subscripts, then the range checks
  of \<open>replace\<close>.
\<close>

definition run_time_of :: "int list \<Rightarrow> exn + (int \<times> int \<times> int)" where
  "run_time_of time_parts =
     (case time_parts of
        h # m # sec # rest \<Rightarrow>
          (if 0 \<le> h \<and> h \<le> 23 \<and> 0 \<le> m \<and> m \<le> 59 \<and> 0 \<le> sec \<and> sec \<le> 59
           then Inr (h, m, sec) else Inl ValueError)
      | _ \<Rightarrow> Inl IndexError)"

text \<open>The last day \<open>datetime\<close> can represent, as a proleptic Gregorian ordinal.\<close>

definition MAXORDINAL :: int where
  "MAXORDINAL = 3652059"

text \<open>
  The \<open>try\<close> block of \<open>_add_or_update_job_in_scheduler\<close>: the exception raised, if
  any, and the job store at that point. \<open>valid_day_of_week\<close> is the cron trigger's
  acceptance of a \<open>day_of_week\<close> expression (library code: \<open>add_job\<close> raises
  ValueError on an expression it cannot parse); \<open>today\<close> is the ordinal of the local
  date of \<open>datetime.now\<close>. Adding the duration to the run time raises OverflowError
  when the day of the result is not a date \<open>datetime\<close> can represent; this happens
  after the ON job has been added.
\<close>

definition add_or_update_job_try ::
  "(string \<Rightarrow> bool) \<Rightarrow> int \<Rightarrow> schedule_data \<Rightarrow> (string \<rightharpoonup> job)
     \<Rightarrow> exn option \<times> (string \<rightharpoonup> job)" where
  "add_or_update_job_try valid_day_of_week today schedule jobs =
     (let schedule_id = str_int (sched_id schedule);
          job_id_base = ''db_'' @ schedule_id;
          name = (if truthy (sched_name schedule) then the (sched_name schedule)
                  else ''Schedule '' @ schedule_id);
          duration = duration_min schedule
      in case time_parts_of (start_time_of_day schedule) of
           None \<Rightarrow> (Some ValueError, jobs)
         | Some time_parts \<Rightarrow>
             (case run_time_of time_parts of
                Inl e \<Rightarrow> (Some e, jobs)
              | Inr (h, m, sec) \<Rightarrow>
                  (let jobs1 = remove_job_from_scheduler schedule_id jobs
                   in if is_active schedule = 1 then
                        (let repeat_days_str = repeat_days schedule
                         in if truthy repeat_days_str
                               \<and> CHR ''-'' \<notin> set (the repeat_days_str) then
                              (let days = lower (the repeat_days_str)
                               in if \<not> valid_day_of_week days then (Some ValueError, jobs1)
                                  else
                                    (let jobs2 = jobs1(''on_'' @ job_id_base \<mapsto>
                                           \<lparr>func = StartScheduledPump name duration,
                                            day_of_week = days, hour = h, minute = m,
                                            job_name = name\<rparr>);
                                         off_total = h * 60 + m + duration
                                     in if today + off_total div 1440 < 1
                                           \<or> MAXORDINAL < today + off_total div 1440
                                        then (Some OverflowError, jobs2)
                                        else
                                          (None, jobs2(''off_'' @ job_id_base \<mapsto>
                                             \<lparr>func = StopScheduledPump name,
                                              day_of_week = days,
                                              hour = (off_total div 60) mod 24,
                                              minute = off_total mod 60,
                                              job_name = name @ '' (Auto OFF)''\<rparr>))))
                            else (None, jobs1))
                      else (None, jobs1))))"

text \<open>
  \<open>_add_or_update_job_in_scheduler\<close>: the \<open>except\<close> clause prints the exception and
  returns.
\<close>

definition add_or_update_job_in_scheduler ::
  "(string \<Rightarrow> bool) \<Rightarrow> int \<Rightarrow> schedule_data \<Rightarrow> (string \<rightharpoonup> job) \<Rightarrow> (string \<rightharpoonup> job)" where
  "add_or_update_job_in_scheduler valid_day_of_week today schedule jobs =
     snd (add_or_update_job_try valid_day_of_week today schedule jobs)"

text \<open>
  What the compiler takes for a day-of-week set: a non-empty \<open>repeat_days\<close> with no
  \<open>-\<close> in it that the cron trigger accepts (in lower case).
\<close>

definition encodes_day_set :: "(string \<Rightarrow> bool) \<Rightarrow> string option \<Rightarrow> bool" where
  "encodes_day_set valid_day_of_week rd =
     (case rd of
        None \<Rightarrow> False
      | Some r \<Rightarrow> r \<noteq> [] \<and> CHR ''-'' \<notin> set r \<and> valid_day_of_week (lower r))"

text \<open>
  Day-of-week expressions that are a comma-separated list of weekday names, which the
  cron trigger accepts, for stating concrete runs.
\<close>

definition weekday_list :: "string \<Rightarrow> bool" where
  "weekday_list s =
     list_all (\<lambda>w. w \<in> set [''mon'', ''tue'', ''wed'', ''thu'', ''fri'', ''sat'', ''sun''])
       (split_on CHR '','' s)"

section \<open>Basic facts about the pump commands\<close>

lemma publishes_append: "publishes (xs @ ys) = publishes xs @ publishes ys"
  by (induction xs rule: publishes.induct) simp_all

lemma audits_append: "audits (xs @ ys) = audits xs @ audits ys"
  by (induction xs rule: audits.induct) simp_all

lemma trace_emit: "trace (emit e s) = trace s @ [e]"
  by (simp add: emit_def)

lemma pump_emit: "pump_is_on (emit e s) = pump_is_on s"
  by (simp add: emit_def)

lemma trace_cancel_if_alive: "trace (cancel_if_alive s) = trace s"
  by (simp add: cancel_if_alive_def split: option.splits)

lemma trace_cancel_and_forget: "trace (cancel_and_forget s) = trace s"
  by (simp add: cancel_and_forget_def split: option.splits)

lemma pump_cancel_if_alive: "pump_is_on (cancel_if_alive s) = pump_is_on s"
  by (simp add: cancel_if_alive_def split: option.splits)

lemma pump_cancel_and_forget: "pump_is_on (cancel_and_forget s) = pump_is_on s"
  by (simp add: cancel_and_forget_def split: option.splits)

lemma pump_after_on: "pump_is_on (turn_pump_on m now src s)"
  by (simp add: turn_pump_on_def Let_def pump_emit start_timer_def pump_cancel_if_alive)

lemma pump_after_off: "\<not> pump_is_on (turn_pump_off src s)"
  by (simp add: turn_pump_off_def Let_def pump_emit pump_cancel_and_forget)

lemma trace_turn_pump_on:
  "trace (turn_pump_on m now src s) =
     (if pump_is_on s then trace s
      else trace s @ [Audit ''PUMP_CONTROL'' (''Pump turned ON - '' @ src) src ''INFO'',
                      Publish ''ON'', Broadcast])"
  by (simp add: turn_pump_on_def Let_def trace_emit start_timer_def trace_cancel_if_alive)

lemma trace_turn_pump_off:
  "trace (turn_pump_off src s) =
     (if pump_is_on s
      then trace s @ [Audit ''PUMP_CONTROL'' (''Pump turned OFF - '' @ src) src ''INFO'',
                      Publish ''OFF'', Broadcast]
      else trace s)"
  by (simp add: turn_pump_off_def Let_def trace_emit trace_cancel_and_forget)

section \<open>Idempotence of the pump commands\<close>

text \<open>
  C4. \<open>turn_pump_on\<close> returns at once when \<open>pump_is_on\<close> is already true: nothing is
  published, no audit record is emitted and the timer is untouched (the whole state,
  trace and timers included, is the one before). Hence a second call right after a
  first one changes nothing, and two calls made from a stopped pump send exactly one
  ON command and one audit record. \<open>turn_pump_off\<close> is the mirror image: it changes
  nothing when \<open>pump_is_on\<close> is already false, and two calls made from a running pump
  send exactly one OFF command and one audit record.
\<close>

theorem turn_pump_idempotent:
  "(pump_is_on s \<longrightarrow> turn_pump_on m now src s = s) \<and>
   (\<not> pump_is_on s \<longrightarrow> turn_pump_off src s = s) \<and>
   turn_pump_on m now' src' (turn_pump_on m now src s) = turn_pump_on m now src s \<and>
   turn_pump_off src' (turn_pump_off src s) = turn_pump_off src s \<and>
   (\<not> pump_is_on s \<longrightarrow>
      publishes (trace (turn_pump_on m now' src' (turn_pump_on m now src s)))
        = publishes (trace s) @ [''ON''] \<and>
      audits (trace (turn_pump_on m now' src' (turn_pump_on m now src s)))
        = audits (trace s) @ [(''Pump turned ON - '' @ src, src)]) \<and>
   (pump_is_on s \<longrightarrow>
      publishes (trace (turn_pump_off src' (turn_pump_off src s)))
        = publishes (trace s) @ [''OFF''] \<and>
      audits (trace (turn_pump_off src' (turn_pump_off src s)))
        = audits (trace s) @ [(''Pump turned OFF - '' @ src, src)])"
proof -
  have on_noop: "\<And>t n c. pump_is_on t \<Longrightarrow> turn_pump_on m n c t = t"
    by (simp add: turn_pump_on_def)
  have off_noop: "\<And>t c. \<not> pump_is_on t \<Longrightarrow> turn_pump_off c t = t"
    by (simp add: turn_pump_off_def)
  have on2: "turn_pump_on m now' src' (turn_pump_on m now src s) = turn_pump_on m now src s"
    by (rule on_noop) (rule pump_after_on)
  have off2: "turn_pump_off src' (turn_pump_off src s) = turn_pump_off src s"
    by (rule off_noop) (rule pump_after_off)
  show ?thesis
    by (simp add: on_noop off_noop on2 off2 trace_turn_pump_on trace_turn_pump_off
        publishes_append audits_append)
qed

theorem turn_pump_idempotent_witness:
  "\<not> pump_is_on initial_state \<and>
   turn_pump_off ''API'' initial_state = initial_state \<and>
   publishes (trace (turn_pump_on 30 5 ''API'' (turn_pump_on 30 0 ''API'' initial_state)))
     = [''ON''] \<and>
   audits (trace (turn_pump_on 30 5 ''API'' (turn_pump_on 30 0 ''API'' initial_state)))
     = [(''Pump turned ON - API'', ''API'')]"
proof -
  have off: "\<not> pump_is_on initial_state"
    by (simp add: initial_state_def)
  have tr: "trace initial_state = []"
    by (simp add: initial_state_def)
  note t = turn_pump_idempotent [of initial_state 30 0 "''API''" 5 "''API''"]
  from t off have a: "turn_pump_off ''API'' initial_state = initial_state"
    by blast
  from t off
  have b: "publishes (trace (turn_pump_on 30 5 ''API'' (turn_pump_on 30 0 ''API'' initial_state)))
             = publishes (trace initial_state) @ [''ON'']"
    by blast
  from t off
  have c: "audits (trace (turn_pump_on 30 5 ''API'' (turn_pump_on 30 0 ''API'' initial_state)))
             = audits (trace initial_state) @ [(''Pump turned ON - '' @ ''API'', ''API'')]"
    by blast
  from b tr
  have b': "publishes (trace (turn_pump_on 30 5 ''API'' (turn_pump_on 30 0 ''API'' initial_state)))
             = [''ON'']"
    by simp
  from c tr
  have c': "audits (trace (turn_pump_on 30 5 ''API'' (turn_pump_on 30 0 ''API'' initial_state)))
             = [(''Pump turned ON - API'', ''API'')]"
    by simp
  from off a b' c' show ?thesis
    by (intro conjI)
qed

section \<open>What each step of the handler leaves unchanged\<close>

lemma pump_alerts_append: "pump_alerts (xs @ ys) = pump_alerts xs @ pump_alerts ys"
  by (induction xs rule: pump_alerts.induct) simp_all

lemma emit_keeps:
  "pump_is_on (emit e s) = pump_is_on s"
  "automated_mode_enabled (emit e s) = automated_mode_enabled s"
  "critical_low_threshold (emit e s) = critical_low_threshold s"
  "critical_high_threshold (emit e s) = critical_high_threshold s"
  "allow_manual_override_at_any_moisture (emit e s) = allow_manual_override_at_any_moisture s"
  "manual_override_active (emit e s) = manual_override_active s"
  "manual_override_state (emit e s) = manual_override_state s"
  "current_schedule_name (emit e s) = current_schedule_name s"
  "schedule_end_time (emit e s) = schedule_end_time s"
  "last_known_flow_lpm (emit e s) = last_known_flow_lpm s"
  "last_known_moisture (emit e s) = last_known_moisture s"
  "total_flow (emit e s) = total_flow s"
  "current_cycle_volume_l (emit e s) = current_cycle_volume_l s"
  "alert_times (emit e s) = alert_times s"
  "auto_off_timer (emit e s) = auto_off_timer s"
  "timers (emit e s) = timers s"
  "timers_created (emit e s) = timers_created s"
  by (simp_all add: emit_def)

lemma turn_pump_on_keeps:
  "automated_mode_enabled (turn_pump_on a now src s) = automated_mode_enabled s"
  "critical_low_threshold (turn_pump_on a now src s) = critical_low_threshold s"
  "critical_high_threshold (turn_pump_on a now src s) = critical_high_threshold s"
  "allow_manual_override_at_any_moisture (turn_pump_on a now src s)
     = allow_manual_override_at_any_moisture s"
  "manual_override_active (turn_pump_on a now src s) = manual_override_active s"
  "manual_override_state (turn_pump_on a now src s) = manual_override_state s"
  "current_schedule_name (turn_pump_on a now src s) = current_schedule_name s"
  "schedule_end_time (turn_pump_on a now src s) = schedule_end_time s"
  "last_known_flow_lpm (turn_pump_on a now src s) = last_known_flow_lpm s"
  "last_known_moisture (turn_pump_on a now src s) = last_known_moisture s"
  "total_flow (turn_pump_on a now src s) = total_flow s"
  "current_cycle_volume_l (turn_pump_on a now src s) = current_cycle_volume_l s"
  "alert_times (turn_pump_on a now src s) = alert_times s"
  by (simp_all add: turn_pump_on_def Let_def emit_def start_timer_def cancel_if_alive_def
      split: option.splits)

lemma turn_pump_off_keeps:
  "automated_mode_enabled (turn_pump_off src s) = automated_mode_enabled s"
  "critical_low_threshold (turn_pump_off src s) = critical_low_threshold s"
  "critical_high_threshold (turn_pump_off src s) = critical_high_threshold s"
  "allow_manual_override_at_any_moisture (turn_pump_off src s)
     = allow_manual_override_at_any_moisture s"
  "manual_override_active (turn_pump_off src s) = manual_override_active s"
  "manual_override_state (turn_pump_off src s) = manual_override_state s"
  "current_schedule_name (turn_pump_off src s) = current_schedule_name s"
  "schedule_end_time (turn_pump_off src s) = schedule_end_time s"
  "last_known_moisture (turn_pump_off src s) = last_known_moisture s"
  "total_flow (turn_pump_off src s) = total_flow s"
  "current_cycle_volume_l (turn_pump_off src s) = current_cycle_volume_l s"
  "alert_times (turn_pump_off src s) = alert_times s"
  by (simp_all add: turn_pump_off_def Let_def emit_def cancel_and_forget_def
      split: option.splits)

lemma merge_sample_keeps:
  "pump_is_on (merge_sample p s) = (p ''pump_status'' = Some (JStr ''ON''))"
  "last_known_moisture (merge_sample p s) = payload_get p ''moisture'' (last_known_moisture s)"
  "automated_mode_enabled (merge_sample p s) = automated_mode_enabled s"
  "critical_low_threshold (merge_sample p s) = critical_low_threshold s"
  "critical_high_threshold (merge_sample p s) = critical_high_threshold s"
  "allow_manual_override_at_any_moisture (merge_sample p s)
     = allow_manual_override_at_any_moisture s"
  "manual_override_active (merge_sample p s) = manual_override_active s"
  "manual_override_state (merge_sample p s) = manual_override_state s"
  "current_schedule_name (merge_sample p s) = current_schedule_name s"
  "schedule_end_time (merge_sample p s) = schedule_end_time s"
  "alert_times (merge_sample p s) = alert_times s"
  "auto_off_timer (merge_sample p s) = auto_off_timer s"
  "timers (merge_sample p s) = timers s"
  "timers_created (merge_sample p s) = timers_created s"
  "trace (merge_sample p s) = trace s"
  by (simp_all add: merge_sample_def)

lemma mode_merge_sample: "get_current_mode (merge_sample p s) = get_current_mode s"
  by (simp add: get_current_mode_def merge_sample_keeps)

lemma moisture_monitoring_keeps:
  "pump_is_on (moisture_monitoring now m lo hi mode s) = pump_is_on s"
  "automated_mode_enabled (moisture_monitoring now m lo hi mode s) = automated_mode_enabled s"
  "critical_low_threshold (moisture_monitoring now m lo hi mode s) = critical_low_threshold s"
  "critical_high_threshold (moisture_monitoring now m lo hi mode s) = critical_high_threshold s"
  "allow_manual_override_at_any_moisture (moisture_monitoring now m lo hi mode s)
     = allow_manual_override_at_any_moisture s"
  "manual_override_active (moisture_monitoring now m lo hi mode s) = manual_override_active s"
  "manual_override_state (moisture_monitoring now m lo hi mode s) = manual_override_state s"
  "current_schedule_name (moisture_monitoring now m lo hi mode s) = current_schedule_name s"
  "schedule_end_time (moisture_monitoring now m lo hi mode s) = schedule_end_time s"
  "last_known_flow_lpm (moisture_monitoring now m lo hi mode s) = last_known_flow_lpm s"
  "last_known_moisture (moisture_monitoring now m lo hi mode s) = last_known_moisture s"
  "total_flow (moisture_monitoring now m lo hi mode s) = total_flow s"
  "current_cycle_volume_l (moisture_monitoring now m lo hi mode s) = current_cycle_volume_l s"
  "auto_off_timer (moisture_monitoring now m lo hi mode s) = auto_off_timer s"
  "timers (moisture_monitoring now m lo hi mode s) = timers s"
  "timers_created (moisture_monitoring now m lo hi mode s) = timers_created s"
  "publishes (trace (moisture_monitoring now m lo hi mode s)) = publishes (trace s)"
  "audits (trace (moisture_monitoring now m lo hi mode s)) = audits (trace s)"
  "pump_alerts (trace (moisture_monitoring now m lo hi mode s)) = pump_alerts (trace s)"
  by (simp_all add: moisture_monitoring_def zone_alert_def set_alert_time_def emit_def
      publishes_append audits_append pump_alerts_append split: option.splits zone.splits)

lemma pump_control_keeps:
  "automated_mode_enabled (pump_control a now m lo hi new oa os s) = automated_mode_enabled s"
  "critical_low_threshold (pump_control a now m lo hi new oa os s) = critical_low_threshold s"
  "critical_high_threshold (pump_control a now m lo hi new oa os s) = critical_high_threshold s"
  "allow_manual_override_at_any_moisture (pump_control a now m lo hi new oa os s)
     = allow_manual_override_at_any_moisture s"
  "manual_override_active (pump_control a now m lo hi new oa os s) = manual_override_active s"
  "manual_override_state (pump_control a now m lo hi new oa os s) = manual_override_state s"
  "current_schedule_name (pump_control a now m lo hi new oa os s) = current_schedule_name s"
  "schedule_end_time (pump_control a now m lo hi new oa os s) = schedule_end_time s"
  "last_known_moisture (pump_control a now m lo hi new oa os s) = last_known_moisture s"
  "total_flow (pump_control a now m lo hi new oa os s) = total_flow s"
  "current_cycle_volume_l (pump_control a now m lo hi new oa os s) = current_cycle_volume_l s"
  "alert_times (pump_control a now m lo hi new oa os s) = alert_times s"
  by (simp_all add: pump_control_def Let_def turn_pump_on_keeps turn_pump_off_keeps)

lemma pump_alerts_turn_pump_on:
  "pump_alerts (trace (turn_pump_on a now src s)) = pump_alerts (trace s)"
  by (simp add: trace_turn_pump_on pump_alerts_append)

lemma pump_alerts_turn_pump_off:
  "pump_alerts (trace (turn_pump_off src s)) = pump_alerts (trace s)"
  by (simp add: trace_turn_pump_off pump_alerts_append)

lemma pump_alerts_pump_control:
  "pump_alerts (trace (pump_control a now m lo hi new oa os s)) = pump_alerts (trace s)"
  by (simp add: pump_control_def Let_def pump_alerts_turn_pump_on pump_alerts_turn_pump_off)

lemma pump_state_change_alerts_keeps:
  "pump_is_on (pump_state_change_alerts old new mode m s) = pump_is_on s"
  "automated_mode_enabled (pump_state_change_alerts old new mode m s) = automated_mode_enabled s"
  "critical_low_threshold (pump_state_change_alerts old new mode m s) = critical_low_threshold s"
  "critical_high_threshold (pump_state_change_alerts old new mode m s) = critical_high_threshold s"
  "allow_manual_override_at_any_moisture (pump_state_change_alerts old new mode m s)
     = allow_manual_override_at_any_moisture s"
  "manual_override_active (pump_state_change_alerts old new mode m s) = manual_override_active s"
  "manual_override_state (pump_state_change_alerts old new mode m s) = manual_override_state s"
  "last_known_flow_lpm (pump_state_change_alerts old new mode m s) = last_known_flow_lpm s"
  "last_known_moisture (pump_state_change_alerts old new mode m s) = last_known_moisture s"
  "total_flow (pump_state_change_alerts old new mode m s) = total_flow s"
  "current_cycle_volume_l (pump_state_change_alerts old new mode m s) = current_cycle_volume_l s"
  "alert_times (pump_state_change_alerts old new mode m s) = alert_times s"
  "auto_off_timer (pump_state_change_alerts old new mode m s) = auto_off_timer s"
  "timers (pump_state_change_alerts old new mode m s) = timers s"
  "timers_created (pump_state_change_alerts old new mode m s) = timers_created s"
  "publishes (trace (pump_state_change_alerts old new mode m s)) = publishes (trace s)"
  "audits (trace (pump_state_change_alerts old new mode m s)) = audits (trace s)"
  by (simp_all add: pump_state_change_alerts_def Let_def emit_def publishes_append audits_append)

section \<open>Alert cooldown\<close>

lemma alert_time_recorded:
  "should_send_alert t k C s \<Longrightarrow> alert_times (zone_alert t k C a s) k = Some t"
  by (simp add: zone_alert_def set_alert_time_def emit_def)

text \<open>
  C6. \<open>should_send_alert\<close> answers True when no firing is recorded under the key.
  When a firing at time \<open>t\<close> is recorded (as \<open>zone_alert\<close> records it when it sends),
  the answer at time \<open>now\<close> is True exactly when \<open>t + C \<le> now\<close>: False at every time
  before \<open>t + C\<close>, in particular one second before it, and True from \<open>t + C\<close> on.
\<close>

theorem should_send_alert_cooldown:
  "(alert_times s k = None \<longrightarrow> should_send_alert now k C s) \<and>
   (alert_times s k = Some t \<longrightarrow>
      (should_send_alert now k C s \<longleftrightarrow> t + real_of_int C \<le> now) \<and>
      \<not> should_send_alert (t + real_of_int C - 1) k C s \<and>
      should_send_alert (t + real_of_int C) k C s) \<and>
   (should_send_alert t k C s \<longrightarrow>
      (should_send_alert now k C (zone_alert t k C a s) \<longleftrightarrow> t + real_of_int C \<le> now))"
proof -
  have "should_send_alert t k C s \<Longrightarrow>
        should_send_alert now k C (zone_alert t k C a s) \<longleftrightarrow> t + real_of_int C \<le> now"
    using alert_time_recorded [of t k C s a] by (auto simp: should_send_alert_def)
  then show ?thesis
    by (auto simp: should_send_alert_def)
qed

theorem should_send_alert_cooldown_witness:
  "should_send_alert 0 ''last_normal_alert'' 600 initial_state \<and>
   \<not> should_send_alert 599 ''last_normal_alert'' 600
       (zone_alert 0 ''last_normal_alert'' 600
          (Alert ''NORMAL_MOISTURE'' ''INFO'' (Some ''AUTOMATED'') (Some (Fin 50))) initial_state) \<and>
   should_send_alert 600 ''last_normal_alert'' 600
       (zone_alert 0 ''last_normal_alert'' 600
          (Alert ''NORMAL_MOISTURE'' ''INFO'' (Some ''AUTOMATED'') (Some (Fin 50))) initial_state)"
proof -
  have none: "alert_times initial_state ''last_normal_alert'' = None"
    by (simp add: initial_state_def)
  note t = should_send_alert_cooldown [of initial_state "''last_normal_alert''" _ 600 0
      "Alert ''NORMAL_MOISTURE'' ''INFO'' (Some ''AUTOMATED'') (Some (Fin 50))"]
  from t [of 0] none have first: "should_send_alert 0 ''last_normal_alert'' 600 initial_state"
    by blast
  from t [of 599] first
  have a: "\<not> should_send_alert 599 ''last_normal_alert'' 600
       (zone_alert 0 ''last_normal_alert'' 600
          (Alert ''NORMAL_MOISTURE'' ''INFO'' (Some ''AUTOMATED'') (Some (Fin 50))) initial_state)"
    by simp
  from t [of 600] first
  have b: "should_send_alert 600 ''last_normal_alert'' 600
       (zone_alert 0 ''last_normal_alert'' 600
          (Alert ''NORMAL_MOISTURE'' ''INFO'' (Some ''AUTOMATED'') (Some (Fin 50))) initial_state)"
    by simp
  from first a b show ?thesis by (intro conjI)
qed

section \<open>The handler on a sample with a numeric moisture\<close>

lemma on_message_numeric:
  assumes "num_of (payload_get p ''moisture'' (last_known_moisture s)) = Some m"
  shows "on_message a now (Payload p) s =
     (let new_pump_status = (p ''pump_status'' = Some (JStr ''ON''));
          s2 = moisture_monitoring now m (critical_low_threshold s) (critical_high_threshold s)
                 (get_current_mode s) (merge_sample p s)
      in if fless (Fin (critical_high_threshold s)) m \<and> \<not> allow_manual_override_at_any_moisture s
            \<and> new_pump_status
         then emit Broadcast
                ((turn_pump_off ''Emergency - Soil Too Wet'' s2)
                   \<lparr>manual_override_active := False, manual_override_state := None\<rparr>)
         else emit Broadcast
                (pump_state_change_alerts (pump_is_on s) new_pump_status (get_current_mode s) m
                   (pump_control a now m (critical_low_threshold s) (critical_high_threshold s)
                      new_pump_status (manual_override_active s) (manual_override_state s) s2)))"
  using assms
  by (simp add: on_message_def on_message_try_def Let_def merge_sample_keeps mode_merge_sample)

section \<open>Concrete samples and the default state\<close>

lemma moisture_of_payload:
  "p ''moisture'' = Some (JNum m) \<Longrightarrow> num_of (payload_get p ''moisture'' d) = Some (Fin m)"
  by (simp add: payload_get_def)

lemma sample_fields:
  "sample m st ''moisture'' = Some (JNum m)"
  "sample m st ''pump_status'' = Some (JStr st)"
  by (simp_all add: sample_def)

lemma initial_state_fields:
  "\<not> pump_is_on initial_state"
  "\<not> manual_override_active initial_state"
  "automated_mode_enabled initial_state"
  "critical_low_threshold initial_state = 40"
  "critical_high_threshold initial_state = 80"
  "allow_manual_override_at_any_moisture initial_state"
  "trace initial_state = []"
  "current_schedule_name initial_state = None"
  by (simp_all add: initial_state_def)

section \<open>Moisture zones\<close>

lemma zone_of_number:
  assumes "lo < hi" and "m \<noteq> NaN"
  shows "(zone_of lo hi m = Some CRITICAL_LOW \<longleftrightarrow> fless m (Fin lo)) \<and>
         (zone_of lo hi m = Some NORMAL \<longleftrightarrow> fless_eq (Fin lo) m \<and> fless_eq m (Fin hi)) \<and>
         (zone_of lo hi m = Some CRITICAL_HIGH \<longleftrightarrow> fless (Fin hi) m) \<and>
         zone_of lo hi m \<noteq> None"
  using assms by (cases m) (auto simp: zone_of_def)

lemma zone_of_NaN: "zone_of lo hi NaN = None"
  by (simp add: zone_of_def)

text \<open>
  What the monitoring block leaves in the three alert timestamps: the one of the
  sample's zone is set (it was set already, or the alert is sent now), the two others
  are cleared; without a zone nothing is touched.
\<close>

lemma zone_alert_sets:
  "alert_times (zone_alert now k C a s) k \<noteq> None"
  by (auto simp: zone_alert_def should_send_alert_def set_alert_time_def emit_def
      split: option.splits)

lemma monitoring_timestamps:
  "zone_of lo hi m = Some CRITICAL_LOW \<Longrightarrow>
     alert_times (moisture_monitoring now m lo hi mode s) ''last_critical_low_alert'' \<noteq> None \<and>
     alert_times (moisture_monitoring now m lo hi mode s) ''last_normal_alert'' = None \<and>
     alert_times (moisture_monitoring now m lo hi mode s) ''last_critical_high_alert'' = None"
  "zone_of lo hi m = Some NORMAL \<Longrightarrow>
     alert_times (moisture_monitoring now m lo hi mode s) ''last_critical_low_alert'' = None \<and>
     alert_times (moisture_monitoring now m lo hi mode s) ''last_normal_alert'' \<noteq> None \<and>
     alert_times (moisture_monitoring now m lo hi mode s) ''last_critical_high_alert'' = None"
  "zone_of lo hi m = Some CRITICAL_HIGH \<Longrightarrow>
     alert_times (moisture_monitoring now m lo hi mode s) ''last_critical_low_alert'' = None \<and>
     alert_times (moisture_monitoring now m lo hi mode s) ''last_normal_alert'' = None \<and>
     alert_times (moisture_monitoring now m lo hi mode s) ''last_critical_high_alert'' \<noteq> None"
  "zone_of lo hi m = None \<Longrightarrow> moisture_monitoring now m lo hi mode s = s"
  using zone_alert_sets
  by (simp_all add: moisture_monitoring_def set_alert_time_def del: not_None_eq)

lemma alert_times_on_message:
  assumes "num_of (payload_get p ''moisture'' (last_known_moisture s)) = Some m"
  shows "alert_times (on_message a now (Payload p) s) =
           alert_times (moisture_monitoring now m (critical_low_threshold s)
                          (critical_high_threshold s) (get_current_mode s) (merge_sample p s))"
  using assms
  by (simp add: on_message_numeric Let_def emit_keeps turn_pump_off_keeps
      pump_state_change_alerts_keeps pump_control_keeps)

text \<open>
  C7, as the code has it. For a sample whose moisture is a number other than NaN
  (finite or infinite) and thresholds with \<open>critical_low < critical_high\<close>, the zone
  chain of \<open>on_message\<close> puts the moisture in exactly one zone: CRITICAL_LOW exactly
  below \<open>critical_low\<close>, NORMAL exactly on the closed interval between the thresholds,
  CRITICAL_HIGH exactly above \<open>critical_high\<close>, and never none. The handler acts on
  that zone: after the sample the alert timestamp of the zone is set and those of
  the two other zones are cleared.
\<close>

theorem zone_partition:
  assumes "critical_low_threshold s < critical_high_threshold s"
      and "num_of (payload_get p ''moisture'' (last_known_moisture s)) = Some m"
      and "m \<noteq> NaN"
  shows "(zone_of (critical_low_threshold s) (critical_high_threshold s) m = Some CRITICAL_LOW
            \<longleftrightarrow> fless m (Fin (critical_low_threshold s))) \<and>
         (zone_of (critical_low_threshold s) (critical_high_threshold s) m = Some NORMAL
            \<longleftrightarrow> fless_eq (Fin (critical_low_threshold s)) m
                \<and> fless_eq m (Fin (critical_high_threshold s))) \<and>
         (zone_of (critical_low_threshold s) (critical_high_threshold s) m = Some CRITICAL_HIGH
            \<longleftrightarrow> fless (Fin (critical_high_threshold s)) m) \<and>
         zone_of (critical_low_threshold s) (critical_high_threshold s) m \<noteq> None \<and>
         (fless m (Fin (critical_low_threshold s)) \<longrightarrow>
            alert_times (on_message a now (Payload p) s) ''last_critical_low_alert'' \<noteq> None \<and>
            alert_times (on_message a now (Payload p) s) ''last_normal_alert'' = None \<and>
            alert_times (on_message a now (Payload p) s) ''last_critical_high_alert'' = None) \<and>
         (fless_eq (Fin (critical_low_threshold s)) m
            \<and> fless_eq m (Fin (critical_high_threshold s)) \<longrightarrow>
            alert_times (on_message a now (Payload p) s) ''last_critical_low_alert'' = None \<and>
            alert_times (on_message a now (Payload p) s) ''last_normal_alert'' \<noteq> None \<and>
            alert_times (on_message a now (Payload p) s) ''last_critical_high_alert'' = None) \<and>
         (fless (Fin (critical_high_threshold s)) m \<longrightarrow>
            alert_times (on_message a now (Payload p) s) ''last_critical_low_alert'' = None \<and>
            alert_times (on_message a now (Payload p) s) ''last_normal_alert'' = None \<and>
            alert_times (on_message a now (Payload p) s) ''last_critical_high_alert'' \<noteq> None)"
proof -
  note z = zone_of_number [OF assms(1,3)]
  note t = alert_times_on_message [OF assms(2), of a now]
  have low: "fless m (Fin (critical_low_threshold s)) \<Longrightarrow>
      alert_times (on_message a now (Payload p) s) ''last_critical_low_alert'' \<noteq> None \<and>
      alert_times (on_message a now (Payload p) s) ''last_normal_alert'' = None \<and>
      alert_times (on_message a now (Payload p) s) ''last_critical_high_alert'' = None"
    unfolding t using z by (intro monitoring_timestamps(1)) blast
  have normal: "fless_eq (Fin (critical_low_threshold s)) m
        \<and> fless_eq m (Fin (critical_high_threshold s)) \<Longrightarrow>
      alert_times (on_message a now (Payload p) s) ''last_critical_low_alert'' = None \<and>
      alert_times (on_message a now (Payload p) s) ''last_normal_alert'' \<noteq> None \<and>
      alert_times (on_message a now (Payload p) s) ''last_critical_high_alert'' = None"
    unfolding t using z by (intro monitoring_timestamps(2)) blast
  have high: "fless (Fin (critical_high_threshold s)) m \<Longrightarrow>
      alert_times (on_message a now (Payload p) s) ''last_critical_low_alert'' = None \<and>
      alert_times (on_message a now (Payload p) s) ''last_normal_alert'' = None \<and>
      alert_times (on_message a now (Payload p) s) ''last_critical_high_alert'' \<noteq> None"
    unfolding t using z by (intro monitoring_timestamps(3)) blast
  from z low normal high show ?thesis
    by blast
qed

theorem zone_partition_witness:
  "critical_low_threshold initial_state < critical_high_threshold initial_state \<and>
   zone_of (critical_low_threshold initial_state) (critical_high_threshold initial_state)
       (Fin 39) = Some CRITICAL_LOW \<and>
   zone_of (critical_low_threshold initial_state) (critical_high_threshold initial_state)
       (Fin 40) = Some NORMAL \<and>
   zone_of (critical_low_threshold initial_state) (critical_high_threshold initial_state)
       (Fin 80) = Some NORMAL \<and>
   zone_of (critical_low_threshold initial_state) (critical_high_threshold initial_state)
       (Fin 81) = Some CRITICAL_HIGH \<and>
   zone_of (critical_low_threshold initial_state) (critical_high_threshold initial_state)
       PosInf = Some CRITICAL_HIGH \<and>
   alert_times (on_message 30 0 (Payload (sample 39 ''OFF'')) initial_state)
       ''last_critical_low_alert'' \<noteq> None \<and>
   alert_times (on_message 30 0 (Payload (sample 39 ''OFF'')) initial_state)
       ''last_normal_alert'' = None \<and>
   alert_times (on_message 30 0 (Payload (sample 80 ''OFF'')) initial_state)
       ''last_normal_alert'' \<noteq> None \<and>
   alert_times (on_message 30 0 (Payload [''moisture'' \<mapsto> JInfinity]) initial_state)
       ''last_critical_high_alert'' \<noteq> None"
proof -
  have h: "critical_low_threshold initial_state < critical_high_threshold initial_state"
    and lo: "critical_low_threshold initial_state = 40"
    and hi: "critical_high_threshold initial_state = 80"
    by (simp_all add: initial_state_def)
  have n: "num_of (payload_get (sample x st) ''moisture'' (last_known_moisture initial_state))
             = Some (Fin x)" for x st
    by (simp add: moisture_of_payload sample_fields)
  have ni: "num_of (payload_get [''moisture'' \<mapsto> JInfinity] ''moisture''
              (last_known_moisture initial_state)) = Some PosInf"
    by (simp add: payload_get_def)
  have fin: "Fin x \<noteq> NaN" for x
    by simp
  have inf: "PosInf \<noteq> NaN"
    by simp
  note t = zone_partition [OF h]
  have a: "zone_of (critical_low_threshold initial_state) (critical_high_threshold initial_state)
             (Fin 39) = Some CRITICAL_LOW"
    using t [OF n [of 39 "''OFF''"] fin] by (simp add: lo hi)
  have b: "zone_of (critical_low_threshold initial_state) (critical_high_threshold initial_state)
             (Fin 40) = Some NORMAL"
    using t [OF n [of 40 "''OFF''"] fin] by (simp add: lo hi)
  have c: "zone_of (critical_low_threshold initial_state) (critical_high_threshold initial_state)
             (Fin 80) = Some NORMAL"
    using t [OF n [of 80 "''OFF''"] fin] by (simp add: lo hi)
  have d: "zone_of (critical_low_threshold initial_state) (critical_high_threshold initial_state)
             (Fin 81) = Some CRITICAL_HIGH"
    using t [OF n [of 81 "''OFF''"] fin] by (simp add: lo hi)
  have e: "zone_of (critical_low_threshold initial_state) (critical_high_threshold initial_state)
             PosInf = Some CRITICAL_HIGH"
    using t [OF ni inf] by (simp add: lo hi)
  have f: "alert_times (on_message 30 0 (Payload (sample 39 ''OFF'')) initial_state)
       ''last_critical_low_alert'' \<noteq> None"
     and g: "alert_times (on_message 30 0 (Payload (sample 39 ''OFF'')) initial_state)
       ''last_normal_alert'' = None"
    using t [OF n [of 39 "''OFF''"] fin, where a = 30 and now = 0] by (simp_all add: lo hi del: not_None_eq)
  have i: "alert_times (on_message 30 0 (Payload (sample 80 ''OFF'')) initial_state)
       ''last_normal_alert'' \<noteq> None"
    using t [OF n [of 80 "''OFF''"] fin, where a = 30 and now = 0] by (simp add: lo hi del: not_None_eq)
  have j: "alert_times (on_message 30 0 (Payload [''moisture'' \<mapsto> JInfinity]) initial_state)
       ''last_critical_high_alert'' \<noteq> None"
    using t [OF ni inf, where a = 30 and now = 0] by (simp add: lo hi del: not_None_eq)
  from h a b c d e f g i j show ?thesis
    by (intro conjI)
qed

text \<open>
  A NaN moisture has no zone. The decoder accepts the token \<open>NaN\<close>, the format of the
  handler prints it, and each of the three comparisons is false: on the default state
  the handler sets none of the three alert timestamps and sends no alert.
\<close>

theorem zone_partition_counterexample:
  "num_of (payload_get [''moisture'' \<mapsto> JNaN] ''moisture'' (last_known_moisture initial_state))
     = Some NaN \<and>
   zone_of (critical_low_threshold initial_state) (critical_high_threshold initial_state) NaN
     = None \<and>
   alert_times (on_message 30 0 (Payload [''moisture'' \<mapsto> JNaN]) initial_state)
     ''last_critical_low_alert'' = None \<and>
   alert_times (on_message 30 0 (Payload [''moisture'' \<mapsto> JNaN]) initial_state)
     ''last_normal_alert'' = None \<and>
   alert_times (on_message 30 0 (Payload [''moisture'' \<mapsto> JNaN]) initial_state)
     ''last_critical_high_alert'' = None \<and>
   trace (on_message 30 0 (Payload [''moisture'' \<mapsto> JNaN]) initial_state) = [Broadcast]"
proof -
  let ?p = "[''moisture'' \<mapsto> JNaN]"
  have n: "num_of (payload_get ?p ''moisture'' (last_known_moisture initial_state)) = Some NaN"
    by (simp add: payload_get_def)
  have z: "zone_of (critical_low_threshold initial_state)
             (critical_high_threshold initial_state) NaN = None"
    by (rule zone_of_NaN)
  have mon: "moisture_monitoring 0 NaN (critical_low_threshold initial_state)
               (critical_high_threshold initial_state) (get_current_mode initial_state)
               (merge_sample ?p initial_state) = merge_sample ?p initial_state"
    using z by (rule monitoring_timestamps(4))
  have at: "alert_times (on_message 30 0 (Payload ?p) initial_state) = Map.empty"
    unfolding alert_times_on_message [OF n] mon
    by (simp add: merge_sample_keeps initial_state_def)
  have ctl: "pump_control a now NaN lo hi new False os s = s" for a now lo hi new os s
    by (simp add: pump_control_def)
  have tr: "trace (on_message 30 0 (Payload ?p) initial_state) = [Broadcast]"
    unfolding on_message_numeric [OF n] Let_def mon
    by (simp add: ctl pump_state_change_alerts_def initial_state_fields trace_emit
        merge_sample_keeps)
  from n z at tr show ?thesis
    by simp
qed

section \<open>Emergency interlock and manual override\<close>



section \<open>Automated control across samples\<close>

lemma on_message_dropped:
  assumes "num_of (payload_get p ''moisture'' (last_known_moisture s)) = None"
  shows "on_message a now (Payload p) s = emit LogError (merge_sample p s)"
  using assms
  by (simp add: on_message_def on_message_try_def Let_def merge_sample_keeps)

lemma on_message_settings:
  "automated_mode_enabled (on_message a now msg s) = automated_mode_enabled s"
  "critical_low_threshold (on_message a now msg s) = critical_low_threshold s"
  "critical_high_threshold (on_message a now msg s) = critical_high_threshold s"
  "allow_manual_override_at_any_moisture (on_message a now msg s)
     = allow_manual_override_at_any_moisture s"
proof -
  have "automated_mode_enabled (on_message a now msg s) = automated_mode_enabled s \<and>
        critical_low_threshold (on_message a now msg s) = critical_low_threshold s \<and>
        critical_high_threshold (on_message a now msg s) = critical_high_threshold s \<and>
        allow_manual_override_at_any_moisture (on_message a now msg s)
          = allow_manual_override_at_any_moisture s"
  proof (cases msg)
    case Undecodable
    then show ?thesis
      by (simp add: on_message_def on_message_try_def emit_keeps)
  next
    case NonObject
    then show ?thesis
      by (simp add: on_message_def on_message_try_def emit_keeps)
  next
    case (Payload p)
    show ?thesis
    proof (cases "num_of (payload_get p ''moisture'' (last_known_moisture s))")
      case None
      with Payload show ?thesis
        by (simp add: on_message_dropped emit_keeps merge_sample_keeps)
    next
      case (Some m)
      with Payload show ?thesis
        by (simp add: on_message_numeric Let_def emit_keeps turn_pump_off_keeps
            pump_state_change_alerts_keeps pump_control_keeps moisture_monitoring_keeps
            merge_sample_keeps)
    qed
  qed
  then show
    "automated_mode_enabled (on_message a now msg s) = automated_mode_enabled s"
    "critical_low_threshold (on_message a now msg s) = critical_low_threshold s"
    "critical_high_threshold (on_message a now msg s) = critical_high_threshold s"
    "allow_manual_override_at_any_moisture (on_message a now msg s)
       = allow_manual_override_at_any_moisture s"
    by simp_all
qed

lemma on_message_override_inactive:
  assumes "\<not> manual_override_active s"
  shows "\<not> manual_override_active (on_message a now msg s)"
proof (cases msg)
  case Undecodable
  with assms show ?thesis
    by (simp add: on_message_def on_message_try_def emit_keeps)
next
  case NonObject
  with assms show ?thesis
    by (simp add: on_message_def on_message_try_def emit_keeps)
next
  case (Payload p)
  show ?thesis
  proof (cases "num_of (payload_get p ''moisture'' (last_known_moisture s))")
    case None
    with Payload assms show ?thesis
      by (simp add: on_message_dropped emit_keeps merge_sample_keeps)
  next
    case (Some m)
    with Payload assms show ?thesis
      by (simp add: on_message_numeric Let_def emit_keeps turn_pump_off_keeps
          pump_state_change_alerts_keeps pump_control_keeps moisture_monitoring_keeps
          merge_sample_keeps)
  qed
qed

text \<open>
  Automated control on one sample, override inactive: below \<open>critical_low\<close> the pump
  is on after the sample, inside the closed normal band it is off, whatever pump
  status the sample reports.
\<close>

lemma automated_low_on:
  assumes "num_of (payload_get p ''moisture'' (last_known_moisture s)) = Some (Fin m)"
      and "\<not> manual_override_active s" and "automated_mode_enabled s"
      and "m < critical_low_threshold s" and "m \<le> critical_high_threshold s"
  shows "pump_is_on (on_message a now (Payload p) s)"
  using assms
  by (simp add: on_message_numeric Let_def emit_keeps pump_state_change_alerts_keeps
      pump_control_def moisture_monitoring_keeps merge_sample_keeps pump_after_on)

lemma automated_normal_off:
  assumes "num_of (payload_get p ''moisture'' (last_known_moisture s)) = Some (Fin m)"
      and "\<not> manual_override_active s" and "automated_mode_enabled s"
      and "critical_low_threshold s \<le> m" and "m \<le> critical_high_threshold s"
  shows "\<not> pump_is_on (on_message a now (Payload p) s)"
  using assms
  by (simp add: on_message_numeric Let_def emit_keeps pump_state_change_alerts_keeps
      pump_control_def moisture_monitoring_keeps merge_sample_keeps pump_after_off)

lemma automated_normal_off_command:
  assumes "num_of (payload_get p ''moisture'' (last_known_moisture s)) = Some (Fin m)"
      and "\<not> manual_override_active s" and "automated_mode_enabled s"
      and "critical_low_threshold s \<le> m" and "m \<le> critical_high_threshold s"
      and "p ''pump_status'' = Some (JStr ''ON'')"
  shows "publishes (trace (on_message a now (Payload p) s)) = publishes (trace s) @ [''OFF'']"
  using assms
  by (simp add: on_message_numeric Let_def trace_emit publishes_append
      pump_state_change_alerts_keeps pump_control_def moisture_monitoring_keeps
      merge_sample_keeps trace_turn_pump_off)

text \<open>
  The three samples of the hysteresis scenario, from any state with the override
  inactive, automation enabled and thresholds 40 and 80.
\<close>

lemma hysteresis_run:
  assumes "\<not> manual_override_active s" and "automated_mode_enabled s"
      and "critical_low_threshold s = 40" and "critical_high_threshold s = 80"
      and "p1 ''moisture'' = Some (JNum 30)" and "p2 ''moisture'' = Some (JNum 41)"
      and "p3 ''moisture'' = Some (JNum 50)"
  shows "pump_is_on (on_message a t1 (Payload p1) s)"
    and "\<not> pump_is_on (on_message a t2 (Payload p2) (on_message a t1 (Payload p1) s))"
    and "\<not> pump_is_on (on_message a t3 (Payload p3)
             (on_message a t2 (Payload p2) (on_message a t1 (Payload p1) s)))"
    and "p2 ''pump_status'' = Some (JStr ''ON'') \<Longrightarrow>
         publishes (trace (on_message a t2 (Payload p2) (on_message a t1 (Payload p1) s)))
           = publishes (trace (on_message a t1 (Payload p1) s)) @ [''OFF'']"
proof -
  let ?s1 = "on_message a t1 (Payload p1) s"
  let ?s2 = "on_message a t2 (Payload p2) ?s1"
  have n1: "num_of (payload_get p1 ''moisture'' (last_known_moisture s)) = Some (Fin 30)"
    using assms(5) by (rule moisture_of_payload)
  have n2: "num_of (payload_get p2 ''moisture'' (last_known_moisture ?s1)) = Some (Fin 41)"
    using assms(6) by (rule moisture_of_payload)
  have n3: "num_of (payload_get p3 ''moisture'' (last_known_moisture ?s2)) = Some (Fin 50)"
    using assms(7) by (rule moisture_of_payload)
  have k1: "\<not> manual_override_active ?s1" "automated_mode_enabled ?s1"
    "critical_low_threshold ?s1 = 40" "critical_high_threshold ?s1 = 80"
    using assms(1-4) by (simp_all add: on_message_settings on_message_override_inactive)
  have k2: "\<not> manual_override_active ?s2" "automated_mode_enabled ?s2"
    "critical_low_threshold ?s2 = 40" "critical_high_threshold ?s2 = 80"
    using k1 by (simp_all add: on_message_settings on_message_override_inactive)
  show "pump_is_on ?s1"
    using n1 assms(1-4) by (intro automated_low_on [where m = 30]) simp_all
  show "\<not> pump_is_on ?s2"
    using n2 k1 by (intro automated_normal_off [where m = 41]) simp_all
  show "\<not> pump_is_on (on_message a t3 (Payload p3) ?s2)"
    using n3 k2 by (intro automated_normal_off [where m = 50]) simp_all
  show "publishes (trace ?s2) = publishes (trace ?s1) @ [''OFF'']"
    if "p2 ''pump_status'' = Some (JStr ''ON'')"
    using n2 k1 that by (intro automated_normal_off_command [where m = 41]) simp_all
qed

section \<open>Hysteresis\<close>

text \<open>
  C2, as the code has it. With the override inactive, automation enabled and thresholds
  40 and 80, the samples with moisture 30, 41 and 50 leave the pump ON, OFF, OFF:
  the pump is turned off at the first sample inside the closed band from 40 to 80,
  which is the sample with moisture 41 (the OFF command is published there when the
  sample reports the pump running), and it is still off after the sample with
  moisture 50. This holds whatever pump status the three samples report.
\<close>

theorem hysteresis_off_at_first_normal_sample:
  assumes "\<not> manual_override_active s" and "automated_mode_enabled s"
      and "critical_low_threshold s = 40" and "critical_high_threshold s = 80"
      and "p1 ''moisture'' = Some (JNum 30)" and "p2 ''moisture'' = Some (JNum 41)"
      and "p3 ''moisture'' = Some (JNum 50)"
  shows "pump_is_on (on_message a t1 (Payload p1) s) \<and>
         \<not> pump_is_on (on_message a t2 (Payload p2) (on_message a t1 (Payload p1) s)) \<and>
         \<not> pump_is_on (on_message a t3 (Payload p3)
             (on_message a t2 (Payload p2) (on_message a t1 (Payload p1) s))) \<and>
         (p2 ''pump_status'' = Some (JStr ''ON'') \<longrightarrow>
            publishes (trace (on_message a t2 (Payload p2) (on_message a t1 (Payload p1) s)))
              = publishes (trace (on_message a t1 (Payload p1) s)) @ [''OFF''])"
proof -
  note r = hysteresis_run [where s = s and ?p1.0 = p1 and ?p2.0 = p2 and ?p3.0 = p3 and a = a]
  from r(1) [OF assms] r(2) [OF assms] r(3) [OF assms] r(4) [OF assms]
  show ?thesis by blast
qed

theorem hysteresis_off_at_first_normal_sample_witness:
  "pump_is_on (on_message 30 0 (Payload (sample 30 ''OFF'')) initial_state) \<and>
   \<not> pump_is_on (on_message 30 60 (Payload (sample 41 ''ON''))
        (on_message 30 0 (Payload (sample 30 ''OFF'')) initial_state)) \<and>
   \<not> pump_is_on (on_message 30 120 (Payload (sample 50 ''OFF''))
        (on_message 30 60 (Payload (sample 41 ''ON''))
           (on_message 30 0 (Payload (sample 30 ''OFF'')) initial_state))) \<and>
   publishes (trace (on_message 30 60 (Payload (sample 41 ''ON''))
        (on_message 30 0 (Payload (sample 30 ''OFF'')) initial_state)))
     = publishes (trace (on_message 30 0 (Payload (sample 30 ''OFF'')) initial_state)) @ [''OFF'']"
  using hysteresis_off_at_first_normal_sample
          [of initial_state "sample 30 ''OFF''" "sample 41 ''ON''" "sample 50 ''OFF''" 30 0 60 120]
  by (simp add: initial_state_fields sample_fields)

text \<open>
  The claim's sequence ON, ON, OFF does not occur: on the default state (thresholds 40
  and 80, automation enabled, no override), after the samples with moisture 30 and 41
  the pump is already off.
\<close>

theorem hysteresis_counterexample:
  "pump_is_on (on_message 30 0 (Payload (sample 30 ''OFF'')) initial_state) \<and>
   \<not> pump_is_on (on_message 30 60 (Payload (sample 41 ''ON''))
        (on_message 30 0 (Payload (sample 30 ''OFF'')) initial_state))"
  using hysteresis_run(1)
          [where s = initial_state and ?p1.0 = "sample 30 ''OFF''" and ?p2.0 = "sample 41 ''ON''"
             and ?p3.0 = "sample 50 ''ON''" and a = 30 and ?t1.0 = 0]
        hysteresis_run(2)
          [where s = initial_state and ?p1.0 = "sample 30 ''OFF''" and ?p2.0 = "sample 41 ''ON''"
             and ?p3.0 = "sample 50 ''ON''" and a = 30 and ?t1.0 = 0 and ?t2.0 = 60]
  by (simp add: initial_state_fields sample_fields)

section \<open>Samples that raise\<close>

lemma on_message_try_raises:
  "fst (on_message_try a now msg s) \<noteq> None \<longleftrightarrow>
     (case msg of
        Payload p \<Rightarrow> num_of (payload_get p ''moisture'' (last_known_moisture s)) = None
      | _ \<Rightarrow> True)"
  by (simp add: on_message_try_def Let_def merge_sample_keeps
      split: message.splits option.splits)

lemma on_message_not_object:
  "on_message a now Undecodable s = emit LogError s"
  "on_message a now NonObject s = emit LogError s"
  by (simp_all add: on_message_def on_message_try_def)

text \<open>
  C8, as the code has it. \<open>on_message\<close> always returns a state: an exception of the
  \<open>try\<close> block ends in the handler, which logs it. When the message is not a JSON
  object the state is the prior one (plus the log entry). When it is an object whose
  moisture the format refuses (a string, null, an array or object, or an integer too
  large for a float), the exception is raised after the merge: the state is the
  prior one with the five telemetry fields of the sample written into it (plus the
  log entry), and nothing else has happened: no command, no alert, no change of
  thresholds, override, schedule, alert times or timer. A later sample with a
  numeric moisture does not raise.
\<close>

theorem dropped_sample_keeps_merge:
  "(fst (on_message_try a now msg s) \<noteq> None \<longrightarrow>
      (case msg of
         Payload p \<Rightarrow> on_message a now msg s = emit LogError (merge_sample p s)
       | _ \<Rightarrow> on_message a now msg s = emit LogError s) \<and>
      trace (on_message a now msg s) = trace s @ [LogError]) \<and>
   (p' ''moisture'' = Some (JNum m') \<longrightarrow>
      fst (on_message_try a now' (Payload p') (on_message a now msg s)) = None)"
proof (intro conjI impI)
  assume "fst (on_message_try a now msg s) \<noteq> None"
  then have r: "case msg of
        Payload p \<Rightarrow> num_of (payload_get p ''moisture'' (last_known_moisture s)) = None
      | _ \<Rightarrow> True"
    by (simp only: on_message_try_raises)
  then show c: "case msg of
         Payload p \<Rightarrow> on_message a now msg s = emit LogError (merge_sample p s)
       | _ \<Rightarrow> on_message a now msg s = emit LogError s"
    by (cases msg) (simp_all add: on_message_not_object on_message_dropped)
  then show "trace (on_message a now msg s) = trace s @ [LogError]"
    by (cases msg) (simp_all add: trace_emit merge_sample_keeps)
next
  assume "p' ''moisture'' = Some (JNum m')"
  then have "num_of (payload_get p' ''moisture''
               (last_known_moisture (on_message a now msg s))) = Some (Fin m')"
    by (rule moisture_of_payload)
  then show "fst (on_message_try a now' (Payload p') (on_message a now msg s)) = None"
    using on_message_try_raises [of a now' "Payload p'" "on_message a now msg s"]
    by (simp del: not_None_eq)
qed

theorem dropped_sample_keeps_merge_witness:
  "fst (on_message_try 30 0 Undecodable initial_state) \<noteq> None \<and>
   on_message 30 0 Undecodable initial_state = emit LogError initial_state \<and>
   fst (on_message_try 30 0 (Payload [''moisture'' \<mapsto> JStr ''wet'']) initial_state) \<noteq> None \<and>
   on_message 30 0 (Payload [''moisture'' \<mapsto> JStr ''wet'']) initial_state
     = emit LogError (merge_sample [''moisture'' \<mapsto> JStr ''wet''] initial_state) \<and>
   fst (on_message_try 30 5 (Payload (sample 50 ''OFF''))
          (on_message 30 0 (Payload [''moisture'' \<mapsto> JStr ''wet'']) initial_state)) = None"
proof -
  have r1: "fst (on_message_try 30 0 Undecodable initial_state) \<noteq> None"
    by (simp add: on_message_try_def)
  have r2: "fst (on_message_try 30 0 (Payload [''moisture'' \<mapsto> JStr ''wet'']) initial_state)
              \<noteq> None"
    unfolding on_message_try_raises by (simp add: payload_get_def)
  have m: "sample 50 ''OFF'' ''moisture'' = Some (JNum 50)"
    by (simp add: sample_fields)
  from dropped_sample_keeps_merge [of 30 0 Undecodable initial_state] r1
  have a: "on_message 30 0 Undecodable initial_state = emit LogError initial_state"
    by simp
  note t = dropped_sample_keeps_merge
             [of 30 0 "Payload [''moisture'' \<mapsto> JStr ''wet'']" initial_state
                 "sample 50 ''OFF''" 50 5]
  from t r2
  have b: "on_message 30 0 (Payload [''moisture'' \<mapsto> JStr ''wet'']) initial_state
     = emit LogError (merge_sample [''moisture'' \<mapsto> JStr ''wet''] initial_state)"
    by simp
  from t m
  have c: "fst (on_message_try 30 5 (Payload (sample 50 ''OFF''))
          (on_message 30 0 (Payload [''moisture'' \<mapsto> JStr ''wet'']) initial_state)) = None"
    by blast
  from r1 a r2 b c show ?thesis
    by (intro conjI)
qed

text \<open>
  The prior state is not retained: on the default state (pump off, moisture 50), a
  sample that reports the pump ON with the moisture given as a string raises, and
  afterwards the state holds the reported pump status and the string.
\<close>

theorem dropped_sample_counterexample:
  "fst (on_message_try 30 0
          (Payload [''moisture'' \<mapsto> JStr ''wet'', ''pump_status'' \<mapsto> JStr ''ON''])
          initial_state) = Some ValueError \<and>
   \<not> pump_is_on initial_state \<and>
   pump_is_on (on_message 30 0
          (Payload [''moisture'' \<mapsto> JStr ''wet'', ''pump_status'' \<mapsto> JStr ''ON''])
          initial_state) \<and>
   last_known_moisture initial_state = JNum 50 \<and>
   last_known_moisture (on_message 30 0
          (Payload [''moisture'' \<mapsto> JStr ''wet'', ''pump_status'' \<mapsto> JStr ''ON''])
          initial_state) = JStr ''wet''"
proof -
  let ?p = "[''moisture'' \<mapsto> JStr ''wet'', ''pump_status'' \<mapsto> JStr ''ON'']"
  have n: "num_of (payload_get ?p ''moisture'' (last_known_moisture initial_state)) = None"
    by (simp add: payload_get_def)
  have a: "fst (on_message_try 30 0 (Payload ?p) initial_state) = Some ValueError"
    using n by (simp add: on_message_try_def Let_def merge_sample_keeps payload_get_def)
  have b: "\<not> pump_is_on initial_state" "last_known_moisture initial_state = JNum 50"
    by (simp_all add: initial_state_def)
  have c: "pump_is_on (on_message 30 0 (Payload ?p) initial_state)"
    by (simp add: on_message_dropped [OF n] emit_keeps merge_sample_keeps)
  have d: "last_known_moisture (on_message 30 0 (Payload ?p) initial_state) = JStr ''wet''"
    by (simp add: on_message_dropped [OF n] emit_keeps merge_sample_keeps payload_get_def)
  from a b c d show ?thesis
    by (intro conjI)
qed

section \<open>Pump state change alerts\<close>

lemma schedule_after_change_alerts:
  "current_schedule_name (pump_state_change_alerts old new mode m s) =
     (if old \<and> \<not> new \<and> truthy (current_schedule_name s) then None
      else current_schedule_name s)"
  "schedule_end_time (pump_state_change_alerts old new mode m s) =
     (if old \<and> \<not> new \<and> truthy (current_schedule_name s) then None
      else schedule_end_time s)"
  by (auto simp: pump_state_change_alerts_def Let_def emit_def)

lemma pump_alerts_after_change_alerts:
  "pump_alerts (trace (pump_state_change_alerts old new mode m s)) =
     pump_alerts (trace s) @
       (if old \<noteq> new
        then [(if new then ''PUMP_ON'' else ''PUMP_OFF'', Some mode, Some m)]
        else [])"
  by (simp add: pump_state_change_alerts_def Let_def emit_def pump_alerts_append)

lemma on_message_regular:
  assumes "num_of (payload_get p ''moisture'' (last_known_moisture s)) = Some m"
      and "\<not> (fless (Fin (critical_high_threshold s)) m \<and> \<not> allow_manual_override_at_any_moisture s
              \<and> p ''pump_status'' = Some (JStr ''ON''))"
  shows "on_message a now (Payload p) s =
      emit Broadcast
        (pump_state_change_alerts (pump_is_on s) (p ''pump_status'' = Some (JStr ''ON''))
           (get_current_mode s) m
           (pump_control a now m (critical_low_threshold s) (critical_high_threshold s)
              (p ''pump_status'' = Some (JStr ''ON'')) (manual_override_active s)
              (manual_override_state s)
              (moisture_monitoring now m (critical_low_threshold s) (critical_high_threshold s)
                 (get_current_mode s) (merge_sample p s))))"
  using assms(2) unfolding on_message_numeric [OF assms(1)] Let_def by (rule if_not_P)

lemma pump_alerts_on_message_regular:
  assumes "num_of (payload_get p ''moisture'' (last_known_moisture s)) = Some m"
      and "\<not> (fless (Fin (critical_high_threshold s)) m \<and> \<not> allow_manual_override_at_any_moisture s
              \<and> p ''pump_status'' = Some (JStr ''ON''))"
  shows "pump_alerts (trace (on_message a now (Payload p) s)) =
          pump_alerts (trace s) @
            (if pump_is_on s \<noteq> (p ''pump_status'' = Some (JStr ''ON''))
             then [(if p ''pump_status'' = Some (JStr ''ON'') then ''PUMP_ON'' else ''PUMP_OFF'',
                    Some (get_current_mode s), Some m)]
             else [])"
  by (simp add: on_message_regular [OF assms] trace_emit pump_alerts_append
      pump_alerts_after_change_alerts pump_alerts_pump_control moisture_monitoring_keeps
      merge_sample_keeps)

text \<open>
  C9, as the code has it. The handler compares the pump status recorded at the start
  of the sample with the status the sample reports, not with the status after its own
  control steps. Unless the emergency branch returned early, exactly one PUMP_ON or
  PUMP_OFF alert (according to the reported status, tagged with the mode and the
  moisture) is emitted when the two differ, and none when they agree; the schedule
  name and end time are cleared exactly when the recorded status was ON, the reported
  one is not, and a non-empty schedule name was set. When the emergency branch
  returns early, no transition alert is emitted and the schedule fields are kept.
\<close>

theorem transition_alert_follows_reported_status:
  assumes "num_of (payload_get p ''moisture'' (last_known_moisture s)) = Some m"
  shows "(\<not> (fless (Fin (critical_high_threshold s)) m \<and> \<not> allow_manual_override_at_any_moisture s
              \<and> p ''pump_status'' = Some (JStr ''ON'')) \<longrightarrow>
            pump_alerts (trace (on_message a now (Payload p) s)) =
              pump_alerts (trace s) @
                (if pump_is_on s \<noteq> (p ''pump_status'' = Some (JStr ''ON''))
                 then [(if p ''pump_status'' = Some (JStr ''ON'') then ''PUMP_ON'' else ''PUMP_OFF'',
                        Some (get_current_mode s), Some m)]
                 else []) \<and>
            current_schedule_name (on_message a now (Payload p) s) =
              (if pump_is_on s \<and> p ''pump_status'' \<noteq> Some (JStr ''ON'')
                    \<and> truthy (current_schedule_name s)
               then None else current_schedule_name s) \<and>
            schedule_end_time (on_message a now (Payload p) s) =
              (if pump_is_on s \<and> p ''pump_status'' \<noteq> Some (JStr ''ON'')
                    \<and> truthy (current_schedule_name s)
               then None else schedule_end_time s)) \<and>
         (fless (Fin (critical_high_threshold s)) m \<and> \<not> allow_manual_override_at_any_moisture s
              \<and> p ''pump_status'' = Some (JStr ''ON'') \<longrightarrow>
            pump_alerts (trace (on_message a now (Payload p) s)) = pump_alerts (trace s) \<and>
            current_schedule_name (on_message a now (Payload p) s) = current_schedule_name s \<and>
            schedule_end_time (on_message a now (Payload p) s) = schedule_end_time s)"
proof (intro conjI impI)
  assume e: "fless (Fin (critical_high_threshold s)) m \<and> \<not> allow_manual_override_at_any_moisture s
              \<and> p ''pump_status'' = Some (JStr ''ON'')"
  let ?s2 = "moisture_monitoring now m (critical_low_threshold s) (critical_high_threshold s)
               (get_current_mode s) (merge_sample p s)"
  from assms e
  have eq: "on_message a now (Payload p) s =
      emit Broadcast ((turn_pump_off ''Emergency - Soil Too Wet'' ?s2)
                        \<lparr>manual_override_active := False, manual_override_state := None\<rparr>)"
    by (simp add: on_message_numeric Let_def)
  show "pump_alerts (trace (on_message a now (Payload p) s)) = pump_alerts (trace s)"
    by (simp add: eq trace_emit pump_alerts_append pump_alerts_turn_pump_off
        moisture_monitoring_keeps merge_sample_keeps)
  show "current_schedule_name (on_message a now (Payload p) s) = current_schedule_name s"
    by (simp add: eq emit_keeps turn_pump_off_keeps moisture_monitoring_keeps merge_sample_keeps)
  show "schedule_end_time (on_message a now (Payload p) s) = schedule_end_time s"
    by (simp add: eq emit_keeps turn_pump_off_keeps moisture_monitoring_keeps merge_sample_keeps)
next
  assume ne: "\<not> (fless (Fin (critical_high_threshold s)) m \<and> \<not> allow_manual_override_at_any_moisture s
              \<and> p ''pump_status'' = Some (JStr ''ON''))"
  let ?new = "p ''pump_status'' = Some (JStr ''ON'')"
  let ?s2 = "moisture_monitoring now m (critical_low_threshold s) (critical_high_threshold s)
               (get_current_mode s) (merge_sample p s)"
  let ?s3 = "pump_control a now m (critical_low_threshold s) (critical_high_threshold s)
               ?new (manual_override_active s) (manual_override_state s) ?s2"
  have eq: "on_message a now (Payload p) s =
      emit Broadcast (pump_state_change_alerts (pump_is_on s) ?new (get_current_mode s) m ?s3)"
    by (rule on_message_regular [OF assms ne])
  have k: "pump_alerts (trace ?s3) = pump_alerts (trace s)"
    "current_schedule_name ?s3 = current_schedule_name s"
    "schedule_end_time ?s3 = schedule_end_time s"
    by (simp_all add: pump_alerts_pump_control pump_control_keeps moisture_monitoring_keeps
        merge_sample_keeps)
  show "pump_alerts (trace (on_message a now (Payload p) s)) =
          pump_alerts (trace s) @
            (if pump_is_on s \<noteq> ?new
             then [(if ?new then ''PUMP_ON'' else ''PUMP_OFF'', Some (get_current_mode s), Some m)]
             else [])"
    by (rule pump_alerts_on_message_regular [OF assms ne])
  show "current_schedule_name (on_message a now (Payload p) s) =
          (if pump_is_on s \<and> \<not> ?new \<and> truthy (current_schedule_name s)
           then None else current_schedule_name s)"
    by (simp add: eq emit_keeps schedule_after_change_alerts k)
  show "schedule_end_time (on_message a now (Payload p) s) =
          (if pump_is_on s \<and> \<not> ?new \<and> truthy (current_schedule_name s)
           then None else schedule_end_time s)"
    by (simp add: eq emit_keeps schedule_after_change_alerts k)
qed

theorem transition_alert_follows_reported_status_witness:
  "pump_alerts (trace (on_message 30 0 (Payload (sample 50 ''ON'')) initial_state))
     = [(''PUMP_ON'', Some ''AUTOMATED'', Some (Fin 50))] \<and>
   current_schedule_name
     (on_message 30 0 (Payload (sample 50 ''OFF''))
        (initial_state\<lparr>pump_is_on := True, current_schedule_name := Some ''Morning''\<rparr>)) = None \<and>
   pump_alerts (trace
     (on_message 30 0 (Payload (sample 90 ''ON''))
        (initial_state\<lparr>allow_manual_override_at_any_moisture := False\<rparr>))) = []"
proof -
  let ?s2 = "initial_state\<lparr>pump_is_on := True, current_schedule_name := Some ''Morning''\<rparr>"
  let ?s3 = "initial_state\<lparr>allow_manual_override_at_any_moisture := False\<rparr>"
  have n1: "num_of (payload_get (sample 50 ''ON'') ''moisture''
              (last_known_moisture initial_state)) = Some (Fin 50)"
    by (simp add: moisture_of_payload sample_fields)
  have n2: "num_of (payload_get (sample 50 ''OFF'') ''moisture'' (last_known_moisture ?s2))
              = Some (Fin 50)"
    by (simp add: moisture_of_payload sample_fields)
  have n3: "num_of (payload_get (sample 90 ''ON'') ''moisture'' (last_known_moisture ?s3))
              = Some (Fin 90)"
    by (simp add: moisture_of_payload sample_fields)
  have mode: "get_current_mode initial_state = ''AUTOMATED''"
    by (simp add: get_current_mode_def initial_state_def truthy_def)
  from transition_alert_follows_reported_status [OF n1, of 30 0]
  have a: "pump_alerts (trace (on_message 30 0 (Payload (sample 50 ''ON'')) initial_state))
     = [(''PUMP_ON'', Some ''AUTOMATED'', Some (Fin 50))]"
    by (simp add: initial_state_fields sample_fields mode)
  from transition_alert_follows_reported_status [OF n2, of 30 0]
  have b: "current_schedule_name (on_message 30 0 (Payload (sample 50 ''OFF'')) ?s2) = None"
    by (simp add: initial_state_def sample_fields truthy_def)
  from transition_alert_follows_reported_status [OF n3, of 30 0]
  have c: "pump_alerts (trace (on_message 30 0 (Payload (sample 90 ''ON'')) ?s3)) = []"
    by (simp add: initial_state_def sample_fields)
  from a b c show ?thesis
    by (intro conjI)
qed

text \<open>
  The alert does not follow the pump's own transitions. From the default state (pump
  off), a sample with moisture 30 that reports the pump off makes automated control
  turn the pump on, and no PUMP_ON alert is emitted; a sample with moisture 50 that
  reports the pump on makes automated control turn it off again, so the status is the
  one recorded at the start, and a PUMP_ON alert is emitted.
\<close>

theorem transition_alert_counterexample:
  "\<not> pump_is_on initial_state \<and>
   pump_is_on (on_message 30 0 (Payload (sample 30 ''OFF'')) initial_state) \<and>
   pump_alerts (trace (on_message 30 0 (Payload (sample 30 ''OFF'')) initial_state)) = [] \<and>
   \<not> pump_is_on (on_message 30 0 (Payload (sample 50 ''ON'')) initial_state) \<and>
   pump_alerts (trace (on_message 30 0 (Payload (sample 50 ''ON'')) initial_state))
     = [(''PUMP_ON'', Some ''AUTOMATED'', Some (Fin 50))]"
proof -
  have n1: "num_of (payload_get (sample 30 ''OFF'') ''moisture''
              (last_known_moisture initial_state)) = Some (Fin 30)"
    by (simp add: moisture_of_payload sample_fields)
  have n2: "num_of (payload_get (sample 50 ''ON'') ''moisture''
              (last_known_moisture initial_state)) = Some (Fin 50)"
    by (simp add: moisture_of_payload sample_fields)
  have mode: "get_current_mode initial_state = ''AUTOMATED''"
    by (simp add: get_current_mode_def initial_state_def truthy_def)
  have a: "pump_is_on (on_message 30 0 (Payload (sample 30 ''OFF'')) initial_state)"
    using n1 by (rule automated_low_on) (simp_all add: initial_state_fields)
  have b: "pump_alerts (trace (on_message 30 0 (Payload (sample 30 ''OFF'')) initial_state)) = []"
    using pump_alerts_on_message_regular [OF n1, of 30 0]
    by (simp add: initial_state_fields sample_fields)
  have c: "\<not> pump_is_on (on_message 30 0 (Payload (sample 50 ''ON'')) initial_state)"
    using n2 by (rule automated_normal_off) (simp_all add: initial_state_fields)
  have d: "pump_alerts (trace (on_message 30 0 (Payload (sample 50 ''ON'')) initial_state))
     = [(''PUMP_ON'', Some ''AUTOMATED'', Some (Fin 50))]"
    using pump_alerts_on_message_regular [OF n2, of 30 0]
    by (simp add: initial_state_fields sample_fields mode)
  from initial_state_fields(1) a b c d show ?thesis
    by (intro conjI)
qed

section \<open>Manual endpoints\<close>

lemma post_pump_on_fields:
  "manual_override_active (snd (post_pump_on a now s))"
  "manual_override_state (snd (post_pump_on a now s)) = Some ''ON''"
  "current_schedule_name (snd (post_pump_on a now s)) = None"
  "schedule_end_time (snd (post_pump_on a now s)) = None"
  by (simp_all add: post_pump_on_def Let_def emit_keeps turn_pump_on_keeps split: option.splits)

lemma post_pump_off_fields:
  "manual_override_active (snd (post_pump_off s))"
  "manual_override_state (snd (post_pump_off s)) = Some ''OFF''"
  "current_schedule_name (snd (post_pump_off s)) = None"
  "schedule_end_time (snd (post_pump_off s)) = None"
  by (simp_all add: post_pump_off_def Let_def emit_keeps turn_pump_off_keeps)

lemma post_pump_on_duplicate:
  "pump_is_on s \<Longrightarrow> publishes (trace (snd (post_pump_on a now s))) = publishes (trace s)"
  by (simp add: post_pump_on_def Let_def trace_emit trace_turn_pump_on emit_keeps
      publishes_append split: option.splits)

lemma post_pump_off_duplicate:
  "\<not> pump_is_on s \<Longrightarrow> publishes (trace (snd (post_pump_off s))) = publishes (trace s)"
  by (simp add: post_pump_off_def Let_def trace_emit trace_turn_pump_off emit_keeps
      publishes_append)

text \<open>
  C10. After \<open>POST /pump/on\<close> the manual override is active with state ON and the
  schedule name and end time are None, from every state; after \<open>POST /pump/off\<close> the
  same with state OFF. This does not depend on the pump command: when the pump is
  already in the requested state the command is ignored (nothing is published) and
  the four fields are set all the same.
\<close>

theorem manual_endpoints_set_override:
  "manual_override_active (snd (post_pump_on a now s)) \<and>
   manual_override_state (snd (post_pump_on a now s)) = Some ''ON'' \<and>
   current_schedule_name (snd (post_pump_on a now s)) = None \<and>
   schedule_end_time (snd (post_pump_on a now s)) = None \<and>
   manual_override_active (snd (post_pump_off s)) \<and>
   manual_override_state (snd (post_pump_off s)) = Some ''OFF'' \<and>
   current_schedule_name (snd (post_pump_off s)) = None \<and>
   schedule_end_time (snd (post_pump_off s)) = None \<and>
   (pump_is_on s \<longrightarrow> publishes (trace (snd (post_pump_on a now s))) = publishes (trace s)) \<and>
   (\<not> pump_is_on s \<longrightarrow> publishes (trace (snd (post_pump_off s))) = publishes (trace s))"
  by (simp add: post_pump_on_fields post_pump_off_fields post_pump_on_duplicate
      post_pump_off_duplicate)

theorem manual_endpoints_set_override_witness:
  "\<not> pump_is_on initial_state \<and>
   manual_override_active (snd (post_pump_off initial_state)) \<and>
   manual_override_state (snd (post_pump_off initial_state)) = Some ''OFF'' \<and>
   publishes (trace (snd (post_pump_off initial_state))) = [] \<and>
   pump_is_on (snd (post_pump_on 30 0 initial_state)) \<and>
   manual_override_state (snd (post_pump_on 30 5 (snd (post_pump_on 30 0 initial_state))))
     = Some ''ON'' \<and>
   publishes (trace (snd (post_pump_on 30 5 (snd (post_pump_on 30 0 initial_state)))))
     = publishes (trace (snd (post_pump_on 30 0 initial_state)))"
proof -
  have off: "\<not> pump_is_on initial_state" and tr: "trace initial_state = []"
    by (simp_all add: initial_state_def)
  have on: "pump_is_on (snd (post_pump_on 30 0 initial_state))"
    by (simp add: post_pump_on_def Let_def initial_state_def emit_keeps pump_after_on)
  note t1 = manual_endpoints_set_override [of 30 0 initial_state]
  note t2 = manual_endpoints_set_override [of 30 5 "snd (post_pump_on 30 0 initial_state)"]
  from t1 have a: "manual_override_active (snd (post_pump_off initial_state))"
    and b: "manual_override_state (snd (post_pump_off initial_state)) = Some ''OFF''"
    by blast+
  from t1 off tr have c: "publishes (trace (snd (post_pump_off initial_state))) = []"
    by simp
  from t2
  have d: "manual_override_state (snd (post_pump_on 30 5 (snd (post_pump_on 30 0 initial_state))))
     = Some ''ON''"
    by blast
  from t2 on
  have e: "publishes (trace (snd (post_pump_on 30 5 (snd (post_pump_on 30 0 initial_state)))))
     = publishes (trace (snd (post_pump_on 30 0 initial_state)))"
    by blast
  from off a b c on d e show ?thesis
    by (intro conjI)
qed

section \<open>The auto-off timer\<close>





































section \<open>The schedule compiler\<close>

lemma remove_job_from_scheduler_eq:
  "remove_job_from_scheduler sid jobs
     = jobs(''on_db_'' @ sid := None, ''off_db_'' @ sid := None)"
  by (auto simp: remove_job_from_scheduler_def remove_job_def fun_upd_idem)

lemma compile_skipped:
  assumes "time_parts_of (start_time_of_day sd) = None
           \<or> (\<exists>ps e. time_parts_of (start_time_of_day sd) = Some ps \<and> run_time_of ps = Inl e)"
  shows "add_or_update_job_in_scheduler valid today sd jobs = jobs"
  using assms
  by (auto simp: add_or_update_job_in_scheduler_def add_or_update_job_try_def Let_def)

lemma run_time_of_ok:
  assumes "0 \<le> h \<and> h \<le> 23 \<and> 0 \<le> m \<and> m \<le> 59 \<and> 0 \<le> sec \<and> sec \<le> 59"
  shows "run_time_of (h # m # sec # rest) = Inr (h, m, sec)"
  using assms by (simp add: run_time_of_def)

lemma encodes_day_set_iff:
  "encodes_day_set valid rd \<longleftrightarrow>
     truthy rd \<and> CHR ''-'' \<notin> set (the rd) \<and> valid (lower (the rd))"
  by (simp add: encodes_day_set_def truthy_def split: option.splits)

lemma compile_parsed:
  assumes "time_parts_of (start_time_of_day sd) = Some (h # m # sec # rest)"
      and "0 \<le> h \<and> h \<le> 23 \<and> 0 \<le> m \<and> m \<le> 59 \<and> 0 \<le> sec \<and> sec \<le> 59"
      and "sid = str_int (sched_id sd)"
      and "nm = (if truthy (sched_name sd) then the (sched_name sd) else ''Schedule '' @ sid)"
      and "d = duration_min sd"
  shows "add_or_update_job_in_scheduler valid today sd jobs =
     (if is_active sd = 1 \<and> encodes_day_set valid (repeat_days sd) then
        (if today + (h * 60 + m + d) div 1440 < 1
            \<or> MAXORDINAL < today + (h * 60 + m + d) div 1440
         then (remove_job_from_scheduler sid jobs)
                (''on_db_'' @ sid \<mapsto>
                   \<lparr>func = StartScheduledPump nm d, day_of_week = lower (the (repeat_days sd)),
                    hour = h, minute = m, job_name = nm\<rparr>)
         else (remove_job_from_scheduler sid jobs)
                (''on_db_'' @ sid \<mapsto>
                   \<lparr>func = StartScheduledPump nm d, day_of_week = lower (the (repeat_days sd)),
                    hour = h, minute = m, job_name = nm\<rparr>,
                 ''off_db_'' @ sid \<mapsto>
                   \<lparr>func = StopScheduledPump nm, day_of_week = lower (the (repeat_days sd)),
                    hour = ((h * 60 + m + d) div 60) mod 24, minute = (h * 60 + m + d) mod 60,
                    job_name = nm @ '' (Auto OFF)''\<rparr>))
      else remove_job_from_scheduler sid jobs)"
  using assms(1) run_time_of_ok [OF assms(2), of rest]
  by (simp add: add_or_update_job_in_scheduler_def add_or_update_job_try_def Let_def
      encodes_day_set_iff assms(3-5))

lemma clock_rollover:
  "((x::int) div 60 mod 24) * 60 + x mod 60 = x mod 1440"
proof -
  have "x mod (60 * 24) = 60 * (x div 60 mod 24) + x mod 60"
    by (rule zmod_zmult2_eq) simp
  then show ?thesis
    by simp
qed

text \<open>
  C5, as the code has it. For a schedule record whose \<open>start_time_of_day\<close> parses into
  hour, minute and second in range, and whose start time plus duration is a date that
  \<open>datetime\<close> can represent: compiling it removes the record's two jobs and then, if
  the record is active and \<open>repeat_days\<close> is taken for a day-of-week set, registers
  exactly the ON job at the start hour and minute and the OFF job at the clock time
  \<open>duration_min\<close> minutes later (minutes and hours carried, modulo one day), both
  with the same days; otherwise it registers nothing. Removing a record's jobs never
  fails and leaves neither of the two job ids, whether or not they were there.
\<close>

theorem schedule_compilation:
  assumes "time_parts_of (start_time_of_day sd) = Some (h # m # sec # rest)"
      and "0 \<le> h \<and> h \<le> 23 \<and> 0 \<le> m \<and> m \<le> 59 \<and> 0 \<le> sec \<and> sec \<le> 59"
      and "1 \<le> today + (h * 60 + m + d) div 1440"
      and "today + (h * 60 + m + d) div 1440 \<le> MAXORDINAL"
      and "sid = str_int (sched_id sd)"
      and "nm = (if truthy (sched_name sd) then the (sched_name sd) else ''Schedule '' @ sid)"
      and "d = duration_min sd"
  shows "add_or_update_job_in_scheduler valid today sd jobs =
           (if is_active sd = 1 \<and> encodes_day_set valid (repeat_days sd) then
              (remove_job_from_scheduler sid jobs)
                (''on_db_'' @ sid \<mapsto>
                   \<lparr>func = StartScheduledPump nm d, day_of_week = lower (the (repeat_days sd)),
                    hour = h, minute = m, job_name = nm\<rparr>,
                 ''off_db_'' @ sid \<mapsto>
                   \<lparr>func = StopScheduledPump nm, day_of_week = lower (the (repeat_days sd)),
                    hour = ((h * 60 + m + d) div 60) mod 24, minute = (h * 60 + m + d) mod 60,
                    job_name = nm @ '' (Auto OFF)''\<rparr>)
            else remove_job_from_scheduler sid jobs) \<and>
         (((h * 60 + m + d) div 60) mod 24) * 60 + (h * 60 + m + d) mod 60
           = (h * 60 + m + d) mod 1440 \<and>
         remove_job_from_scheduler sid jobs
           = jobs(''on_db_'' @ sid := None, ''off_db_'' @ sid := None) \<and>
         remove_job_from_scheduler sid jobs (''on_db_'' @ sid) = None \<and>
         remove_job_from_scheduler sid jobs (''off_db_'' @ sid) = None"
proof -
  have range: "\<not> (today + (h * 60 + m + d) div 1440 < 1
                   \<or> MAXORDINAL < today + (h * 60 + m + d) div 1440)"
    using assms(3,4) by simp
  have "add_or_update_job_in_scheduler valid today sd jobs =
           (if is_active sd = 1 \<and> encodes_day_set valid (repeat_days sd) then
              (remove_job_from_scheduler sid jobs)
                (''on_db_'' @ sid \<mapsto>
                   \<lparr>func = StartScheduledPump nm d, day_of_week = lower (the (repeat_days sd)),
                    hour = h, minute = m, job_name = nm\<rparr>,
                 ''off_db_'' @ sid \<mapsto>
                   \<lparr>func = StopScheduledPump nm, day_of_week = lower (the (repeat_days sd)),
                    hour = ((h * 60 + m + d) div 60) mod 24, minute = (h * 60 + m + d) mod 60,
                    job_name = nm @ '' (Auto OFF)''\<rparr>)
            else remove_job_from_scheduler sid jobs)"
    unfolding compile_parsed [OF assms(1,2,5,6,7)] using range by (simp only: if_False)
  moreover have "remove_job_from_scheduler sid jobs (''on_db_'' @ sid) = None"
    "remove_job_from_scheduler sid jobs (''off_db_'' @ sid) = None"
    by (simp_all add: remove_job_from_scheduler_eq)
  ultimately show ?thesis
    using clock_rollover [of "h * 60 + m + d"] remove_job_from_scheduler_eq [of sid jobs]
    by (intro conjI)
qed

lemma concrete_strings:
  "time_parts_of ''06:00:00'' = Some [6, 0, 0]"
  "time_parts_of ''23:55:00'' = Some [23, 55, 0]"
  "time_parts_of ''06:00'' = Some [6, 0]"
  "str_int 1 = ''1''"
  "lower ''mon,wed,fri'' = ''mon,wed,fri''"
  "weekday_list ''mon,wed,fri''"
  by code_simp+

theorem schedule_compilation_witness:
  "add_or_update_job_in_scheduler weekday_list 739923
     \<lparr>sched_id = 1, sched_name = Some ''Morning'', duration_min = 15,
      start_time_of_day = ''06:00:00'', is_active = 1, repeat_days = Some ''mon,wed,fri''\<rparr>
     Map.empty
   = [''on_db_1'' \<mapsto>
        \<lparr>func = StartScheduledPump ''Morning'' 15, day_of_week = ''mon,wed,fri'',
         hour = 6, minute = 0, job_name = ''Morning''\<rparr>,
      ''off_db_1'' \<mapsto>
        \<lparr>func = StopScheduledPump ''Morning'', day_of_week = ''mon,wed,fri'',
         hour = 6, minute = 15, job_name = ''Morning (Auto OFF)''\<rparr>] \<and>
   add_or_update_job_in_scheduler weekday_list 739923
     \<lparr>sched_id = 1, sched_name = Some ''Night'', duration_min = 15,
      start_time_of_day = ''23:55:00'', is_active = 1, repeat_days = Some ''mon,wed,fri''\<rparr>
     Map.empty ''off_db_1''
   = Some \<lparr>func = StopScheduledPump ''Night'', day_of_week = ''mon,wed,fri'',
           hour = 0, minute = 10, job_name = ''Night (Auto OFF)''\<rparr> \<and>
   add_or_update_job_in_scheduler weekday_list 739923
     \<lparr>sched_id = 1, sched_name = Some ''Once'', duration_min = 15,
      start_time_of_day = ''06:00:00'', is_active = 1, repeat_days = Some ''2026-11-03''\<rparr>
     Map.empty
   = Map.empty"
proof -
  let ?a = "\<lparr>sched_id = 1, sched_name = Some ''Morning'', duration_min = 15,
      start_time_of_day = ''06:00:00'', is_active = 1, repeat_days = Some ''mon,wed,fri''\<rparr>"
  let ?b = "\<lparr>sched_id = 1, sched_name = Some ''Night'', duration_min = 15,
      start_time_of_day = ''23:55:00'', is_active = 1, repeat_days = Some ''mon,wed,fri''\<rparr>"
  let ?c = "\<lparr>sched_id = 1, sched_name = Some ''Once'', duration_min = 15,
      start_time_of_day = ''06:00:00'', is_active = 1, repeat_days = Some ''2026-11-03''\<rparr>"
  have pa: "time_parts_of (start_time_of_day ?a) = Some (6 # 0 # 0 # [])"
    and pb: "time_parts_of (start_time_of_day ?b) = Some (23 # 55 # 0 # [])"
    and pc: "time_parts_of (start_time_of_day ?c) = Some (6 # 0 # 0 # [])"
    by (simp_all add: concrete_strings)
  have ra: "(0::int) \<le> 6 \<and> (6::int) \<le> 23 \<and> (0::int) \<le> 0 \<and> (0::int) \<le> 59
              \<and> (0::int) \<le> 0 \<and> (0::int) \<le> 59"
    and rb: "(0::int) \<le> 23 \<and> (23::int) \<le> 23 \<and> (0::int) \<le> 55 \<and> (55::int) \<le> 59
              \<and> (0::int) \<le> 0 \<and> (0::int) \<le> 59"
    by simp_all
  have la: "1 \<le> 739923 + (6 * 60 + 0 + duration_min ?a) div 1440"
    and ua: "739923 + (6 * 60 + 0 + duration_min ?a) div 1440 \<le> MAXORDINAL"
    and lb: "1 \<le> 739923 + (23 * 60 + 55 + duration_min ?b) div 1440"
    and ub: "739923 + (23 * 60 + 55 + duration_min ?b) div 1440 \<le> MAXORDINAL"
    and lc: "1 \<le> 739923 + (6 * 60 + 0 + duration_min ?c) div 1440"
    and uc: "739923 + (6 * 60 + 0 + duration_min ?c) div 1440 \<le> MAXORDINAL"
    by (simp_all add: MAXORDINAL_def)
  have enc: "encodes_day_set weekday_list (Some ''mon,wed,fri'')"
    "\<not> encodes_day_set weekday_list (Some ''2026-11-03'')"
    by (simp_all add: encodes_day_set_def concrete_strings)
  from schedule_compilation [OF pa ra la ua refl refl refl, of weekday_list Map.empty]
  have a: "add_or_update_job_in_scheduler weekday_list 739923 ?a Map.empty
   = [''on_db_1'' \<mapsto>
        \<lparr>func = StartScheduledPump ''Morning'' 15, day_of_week = ''mon,wed,fri'',
         hour = 6, minute = 0, job_name = ''Morning''\<rparr>,
      ''off_db_1'' \<mapsto>
        \<lparr>func = StopScheduledPump ''Morning'', day_of_week = ''mon,wed,fri'',
         hour = 6, minute = 15, job_name = ''Morning (Auto OFF)''\<rparr>]"
    by (simp add: enc concrete_strings truthy_def)
  from schedule_compilation [OF pb rb lb ub refl refl refl, of weekday_list Map.empty]
  have b: "add_or_update_job_in_scheduler weekday_list 739923 ?b Map.empty ''off_db_1''
   = Some \<lparr>func = StopScheduledPump ''Night'', day_of_week = ''mon,wed,fri'',
           hour = 0, minute = 10, job_name = ''Night (Auto OFF)''\<rparr>"
    by (simp add: enc concrete_strings truthy_def)
  from schedule_compilation [OF pc ra lc uc refl refl refl, of weekday_list Map.empty]
  have c: "add_or_update_job_in_scheduler weekday_list 739923 ?c Map.empty = Map.empty"
    by (simp add: enc concrete_strings)
  from a b c show ?thesis
    by (intro conjI)
qed

text \<open>
  Two records that are not compiled as the claim says. A record whose time of day has
  two fields raises before the removal, so the job compiled earlier for the same id
  stays in the scheduler. A record whose duration takes the end time beyond the last
  date \<open>datetime\<close> can represent raises after the ON job was added: the scheduler is
  left with the ON job and no OFF job.
\<close>

theorem schedule_compilation_counterexample:
  "add_or_update_job_in_scheduler weekday_list 739923
     \<lparr>sched_id = 1, sched_name = Some ''Morning'', duration_min = 15,
      start_time_of_day = ''06:00'', is_active = 1, repeat_days = Some ''mon,wed,fri''\<rparr>
     [''on_db_1'' \<mapsto>
        \<lparr>func = StartScheduledPump ''Morning'' 15, day_of_week = ''mon,wed,fri'',
         hour = 5, minute = 0, job_name = ''Morning''\<rparr>]
     ''on_db_1''
   = Some \<lparr>func = StartScheduledPump ''Morning'' 15, day_of_week = ''mon,wed,fri'',
           hour = 5, minute = 0, job_name = ''Morning''\<rparr> \<and>
   add_or_update_job_in_scheduler weekday_list 739923
     \<lparr>sched_id = 1, sched_name = Some ''Morning'', duration_min = 10000000000,
      start_time_of_day = ''06:00:00'', is_active = 1, repeat_days = Some ''mon,wed,fri''\<rparr>
     Map.empty
   = [''on_db_1'' \<mapsto>
        \<lparr>func = StartScheduledPump ''Morning'' 10000000000, day_of_week = ''mon,wed,fri'',
         hour = 6, minute = 0, job_name = ''Morning''\<rparr>]"
proof -
  let ?a = "\<lparr>sched_id = 1, sched_name = Some ''Morning'', duration_min = 15,
      start_time_of_day = ''06:00'', is_active = 1, repeat_days = Some ''mon,wed,fri''\<rparr>"
  let ?b = "\<lparr>sched_id = 1, sched_name = Some ''Morning'', duration_min = 10000000000,
      start_time_of_day = ''06:00:00'', is_active = 1, repeat_days = Some ''mon,wed,fri''\<rparr>"
  have "time_parts_of (start_time_of_day ?a) = Some [6, 0] \<and> run_time_of [6, 0] = Inl IndexError"
    by (simp add: concrete_strings run_time_of_def)
  then have skip: "add_or_update_job_in_scheduler weekday_list 739923 ?a jobs = jobs" for jobs
    by (intro compile_skipped) blast
  have pb: "time_parts_of (start_time_of_day ?b) = Some (6 # 0 # 0 # [])"
    by (simp add: concrete_strings)
  have rb: "(0::int) \<le> 6 \<and> (6::int) \<le> 23 \<and> (0::int) \<le> 0 \<and> (0::int) \<le> 59
              \<and> (0::int) \<le> 0 \<and> (0::int) \<le> 59"
    by simp
  have enc: "encodes_day_set weekday_list (Some ''mon,wed,fri'')"
    by (simp add: encodes_day_set_def concrete_strings)
  from compile_parsed [OF pb rb refl refl refl, of weekday_list 739923 Map.empty]
  have b: "add_or_update_job_in_scheduler weekday_list 739923 ?b Map.empty
   = [''on_db_1'' \<mapsto>
        \<lparr>func = StartScheduledPump ''Morning'' 10000000000, day_of_week = ''mon,wed,fri'',
         hour = 6, minute = 0, job_name = ''Morning''\<rparr>]"
    by (simp add: enc concrete_strings truthy_def MAXORDINAL_def remove_job_from_scheduler_eq)
  from skip b show ?thesis
    by simp
qed

end
